theory Spec2Isabelle
  imports Complex_Main "HOL-Library.Word"
begin

unbundle bit_operations_syntax

chapter \<open>The PICA200 backend of rlgl (src/source/rlgl.h)\<close>

text \<open>
  A shallow embedding of the parts of \<^verbatim>\<open>rlgl.h\<close> that carry state: the matrix stack
  (\<^verbatim>\<open>rlMatrixMode\<close>, \<^verbatim>\<open>rlPushMatrix\<close>, \<^verbatim>\<open>rlPopMatrix\<close>), the texture
  registry and loader (\<^verbatim>\<open>rlNewPica200Tex\<close>, \<^verbatim>\<open>rlRemovePica200Tex\<close>,
  \<^verbatim>\<open>rlLoadTexture\<close>), and the immediate-mode attribute cache (\<^verbatim>\<open>rlBegin\<close>,
  the per-attribute setters, \<^verbatim>\<open>rlPicaAttrFlush\<close>, \<^verbatim>\<open>rlEnd\<close>).

  The C globals (\<^verbatim>\<open>RLGL.State\<close> and the file's statics) are the fields of one record that
  every function takes and returns. Calls into the immediate-mode interface of the native
  driver (citro3d) are appended to a trace, \<^verbatim>\<open>TRACELOG\<close> messages to a log; the
  driver's texture calls act on the registry node they are given. An access outside a C
  array and a null pointer handed to the driver are undefined behaviour in C; the model stops
  there with a fault value that carries the state reached.
\<close>

section \<open>Data\<close>

text \<open>
  A C \<^verbatim>\<open>float\<close> is carried as a real number. The functions modelled here store, copy and
  compare such values; the one place that computes with them (the decrement in
  \<^verbatim>\<open>rlEnd\<close>) takes the float32 operation as a parameter.
\<close>

type_synonym float = real
type_synonym u8 = "8 word"
type_synonym u32 = "32 word"

text \<open>
  Modelled from the spec: \<^verbatim>\<open>Matrix\<close> is declared in raymath.h, not in this file. A 4 by 4
  transform, a value type; its sixteen floats are the fields \<^verbatim>\<open>m0 .. m15\<close> that
  \<^verbatim>\<open>rlBegin\<close> reads.
\<close>

record Matrix =
  m0 :: float
  m1 :: float
  m2 :: float
  m3 :: float
  m4 :: float
  m5 :: float
  m6 :: float
  m7 :: float
  m8 :: float
  m9 :: float
  m10 :: float
  m11 :: float
  m12 :: float
  m13 :: float
  m14 :: float
  m15 :: float

text \<open>
  Modelled from the spec: \<^verbatim>\<open>Vector4\<close> is declared in raymath.h. A 4-component value, the
  fields \<^verbatim>\<open>x, y, z, w\<close> that \<^verbatim>\<open>rlSendAttr\<close> reads.
\<close>

datatype Vector4 = Vector4 (vx: float) (vy: float) (vz: float) (vw: float)

text \<open>
  The targets \<^verbatim>\<open>RLGL.State.currentMatrix\<close> can point to: the addresses of the four
  matrices of \<^verbatim>\<open>RLGL.State\<close>.
\<close>

datatype matrix_ptr = Addr_modelview | Addr_projection | Addr_projectionBottom | Addr_transform

text \<open>
  Modelled from the spec: the native primitive begin and end, per-attribute send and
  uniform-matrix upload of the driver (citro3d), as the calls this file makes, with their
  arguments. \<^verbatim>\<open>GPU_Primitive_t\<close> has the two topologies \<^verbatim>\<open>rlBegin\<close> selects.
\<close>

datatype GPU_Primitive_t = GPU_TRIANGLES | GPU_TRIANGLE_STRIP

datatype gpu_call =
    C3D_ImmDrawBegin GPU_Primitive_t
  | C3D_FVUnifMtx4x4 int "float list"
  | C3D_ImmSendAttrib float float float float
  | C3D_ImmDrawEnd

text \<open>
  Modelled from the spec: the log levels and the pixel formats are enumerations of raylib.h,
  the native texel formats one of the driver; their members are the names the
  \<^verbatim>\<open>switch\<close> statements and \<^verbatim>\<open>TRACELOG\<close> calls of this file use.
\<close>

datatype TraceLogLevel = LOG_INFO | LOG_WARNING | LOG_ERROR

datatype PixelFormat =
    PIXELFORMAT_COMPRESSED_ASTC_4x4_RGBA
  | PIXELFORMAT_COMPRESSED_ASTC_8x8_RGBA
  | PIXELFORMAT_COMPRESSED_DXT1_RGB
  | PIXELFORMAT_COMPRESSED_DXT1_RGBA
  | PIXELFORMAT_COMPRESSED_DXT3_RGBA
  | PIXELFORMAT_COMPRESSED_DXT5_RGBA
  | PIXELFORMAT_COMPRESSED_ETC1_RGB
  | PIXELFORMAT_COMPRESSED_ETC2_EAC_RGBA
  | PIXELFORMAT_COMPRESSED_ETC2_RGB
  | PIXELFORMAT_COMPRESSED_PVRT_RGB
  | PIXELFORMAT_COMPRESSED_PVRT_RGBA
  | PIXELFORMAT_UNCOMPRESSED_GRAY_ALPHA
  | PIXELFORMAT_UNCOMPRESSED_GRAYSCALE
  | PIXELFORMAT_UNCOMPRESSED_R32
  | PIXELFORMAT_UNCOMPRESSED_R32G32B32
  | PIXELFORMAT_UNCOMPRESSED_R32G32B32A32
  | PIXELFORMAT_UNCOMPRESSED_R4G4B4A4
  | PIXELFORMAT_UNCOMPRESSED_R5G5B5A1
  | PIXELFORMAT_UNCOMPRESSED_R5G6B5
  | PIXELFORMAT_UNCOMPRESSED_R8G8B8
  | PIXELFORMAT_UNCOMPRESSED_R8G8B8A8

datatype GPU_TEXCOLOR =
    GPU_RGBA8 | GPU_RGB8 | GPU_RGBA5551 | GPU_RGB565 | GPU_RGBA4 | GPU_LA8 | GPU_HILO8
  | GPU_L8 | GPU_A8 | GPU_LA4 | GPU_L4 | GPU_A4 | GPU_ETC1 | GPU_ETC1A4

text \<open>
  Modelled from the spec: \<^verbatim>\<open>C3D_Tex\<close> is the driver's native texture resource. Kept of
  it is what this file hands to the driver: the size and format given to
  \<^verbatim>\<open>C3D_TexInit\<close> and the bytes given to \<^verbatim>\<open>C3D_TexUpload\<close> (\<open>None\<close> before the
  first upload).
\<close>

record C3D_Tex =
  tex_width :: int
  tex_height :: int
  tex_fmt :: GPU_TEXCOLOR
  tex_data :: "u8 list option"

text \<open>
  \<^verbatim>\<open>TexLinkedList_t\<close>: one node of the texture registry. The \<^verbatim>\<open>next\<close> pointer is the
  tail of the list the node stands in; \<open>node_tex\<close> is \<open>None\<close> while the \<^verbatim>\<open>tex\<close>
  field has not been initialised by the driver.
\<close>

record TexLinkedList_t =
  node_id :: u32
  node_tex :: "C3D_Tex option"

record rlgl =
  currentMatrixMode :: int
  currentMatrix :: matrix_ptr
  modelview :: Matrix
  projection :: Matrix
  projectionBottom :: Matrix
  transform :: Matrix
  transformRequired :: bool
  stack :: "Matrix list"
  stackCounter :: int
  bottom :: bool
  uLoc_projection :: int
  uLoc_modelView :: int
  rootTex :: "TexLinkedList_t list"
  paramsUsed :: "bool list"
  lastParams :: "Vector4 list"
  backupParams :: "Vector4 list"
  shaderNumParams :: int
  paramMode :: int
  paramNum :: int
  currentDepth :: float
  gpu :: "gpu_call list"
  tracelog :: "(TraceLogLevel \<times> string) list"

text \<open>
  Undefined behaviour the code can reach: an index into \<^verbatim>\<open>RLGL.State.stack\<close> outside
  \<open>0 .. MAX_MATRIX_STACK_SIZE - 1\<close>, and the null pointer of a failed lookup given to the
  driver. A fault carries the state in which the access is attempted.
\<close>

datatype fault = StackIndexOutOfBounds int | NullTexPointer

type_synonym 'a result = "(fault \<times> rlgl) + 'a"

abbreviation (input) MAX_MATRIX_STACK_SIZE :: int where "MAX_MATRIX_STACK_SIZE \<equiv> 32"
abbreviation (input) RL_MODELVIEW :: int where "RL_MODELVIEW \<equiv> 0x1700"
abbreviation (input) RL_PROJECTION :: int where "RL_PROJECTION \<equiv> 0x1701"
abbreviation (input) RL_TEXTURE :: int where "RL_TEXTURE \<equiv> 0x1702"
abbreviation (input) RL_PROJECTION_BOTTOM :: int where "RL_PROJECTION_BOTTOM \<equiv> 0x1703"
abbreviation (input) RL_LINES :: int where "RL_LINES \<equiv> 0x0001"
abbreviation (input) RL_TRIANGLES :: int where "RL_TRIANGLES \<equiv> 0x0004"
abbreviation (input) RL_QUADS :: int where "RL_QUADS \<equiv> 0x0007"

text \<open>\<^verbatim>\<open>enum Pica200ShaderParams\<close>: the indices of the attribute slots.\<close>

abbreviation (input) SHD_POSITION :: nat where "SHD_POSITION \<equiv> 0"
abbreviation (input) SHD_TEXCOORD :: nat where "SHD_TEXCOORD \<equiv> 1"
abbreviation (input) SHD_COLOR :: nat where "SHD_COLOR \<equiv> 2"
abbreviation (input) SHD_NORMAL :: nat where "SHD_NORMAL \<equiv> 3"
abbreviation (input) SHD_MAX_PARAMS :: nat where "SHD_MAX_PARAMS \<equiv> 4"

text \<open>
  The arrays of the C state have a fixed size; the lists that carry them have that length.
\<close>

definition arrays_ok :: "rlgl \<Rightarrow> bool" where
  "arrays_ok s \<longleftrightarrow>
     length (stack s) = nat MAX_MATRIX_STACK_SIZE \<and>
     length (paramsUsed s) = SHD_MAX_PARAMS \<and>
     length (lastParams s) = SHD_MAX_PARAMS \<and>
     length (backupParams s) = SHD_MAX_PARAMS"

text \<open>
  Modelled from the spec: \<^verbatim>\<open>TRACELOG\<close> is the diagnostic channel (a macro of raylib).
  The level and the format string of a message are recorded, in order.
\<close>

definition TRACELOG :: "TraceLogLevel \<Rightarrow> string \<Rightarrow> rlgl \<Rightarrow> rlgl" where
  "TRACELOG level msg s = s\<lparr>tracelog := tracelog s @ [(level, msg)]\<rparr>"

section \<open>The matrix stack\<close>

text \<open>Reading and writing through \<^verbatim>\<open>RLGL.State.currentMatrix\<close>.\<close>

definition get_current :: "rlgl \<Rightarrow> Matrix" where
  "get_current s =
     (case currentMatrix s of
        Addr_modelview \<Rightarrow> modelview s
      | Addr_projection \<Rightarrow> projection s
      | Addr_projectionBottom \<Rightarrow> projectionBottom s
      | Addr_transform \<Rightarrow> transform s)"

definition set_current :: "Matrix \<Rightarrow> rlgl \<Rightarrow> rlgl" where
  "set_current m s =
     (case currentMatrix s of
        Addr_modelview \<Rightarrow> s\<lparr>modelview := m\<rparr>
      | Addr_projection \<Rightarrow> s\<lparr>projection := m\<rparr>
      | Addr_projectionBottom \<Rightarrow> s\<lparr>projectionBottom := m\<rparr>
      | Addr_transform \<Rightarrow> s\<lparr>transform := m\<rparr>)"

definition rlMatrixMode :: "int \<Rightarrow> rlgl \<Rightarrow> rlgl" where
  "rlMatrixMode mode s =
     (let s1 =
        (if mode = RL_PROJECTION then s\<lparr>currentMatrix := Addr_projection\<rparr>
         else if mode = RL_PROJECTION_BOTTOM then s\<lparr>currentMatrix := Addr_projectionBottom\<rparr>
         else if mode = RL_MODELVIEW then s\<lparr>currentMatrix := Addr_modelview\<rparr>
         else s)
      in s1\<lparr>currentMatrixMode := mode\<rparr>)"

definition rlPushMatrix :: "rlgl \<Rightarrow> rlgl result" where
  "rlPushMatrix s =
     (let s1 =
        (if stackCounter s \<ge> MAX_MATRIX_STACK_SIZE
         then TRACELOG LOG_ERROR ''RLGL: Matrix stack overflow (MAX_MATRIX_STACK_SIZE)'' s
         else s);
          s2 =
        (if currentMatrixMode s1 = RL_MODELVIEW
         then s1\<lparr>transformRequired := True, currentMatrix := Addr_transform\<rparr>
         else s1)
      in if 0 \<le> stackCounter s2 \<and> stackCounter s2 < MAX_MATRIX_STACK_SIZE
         then Inr (s2\<lparr>stack := (stack s2)[nat (stackCounter s2) := get_current s2],
                      stackCounter := stackCounter s2 + 1\<rparr>)
         else Inl (StackIndexOutOfBounds (stackCounter s2), s2))"

definition rlPopMatrix :: "rlgl \<Rightarrow> rlgl result" where
  "rlPopMatrix s =
     (let r1 =
        (if stackCounter s > 0
         then (if stackCounter s - 1 < MAX_MATRIX_STACK_SIZE
               then Inr ((set_current (stack s ! nat (stackCounter s - 1)) s)
                           \<lparr>stackCounter := stackCounter s - 1\<rparr>)
               else Inl (StackIndexOutOfBounds (stackCounter s - 1), s))
         else Inr s)
      in case r1 of
           Inl f \<Rightarrow> Inl f
         | Inr s1 \<Rightarrow>
             Inr (if stackCounter s1 = 0 \<and> currentMatrixMode s1 = RL_MODELVIEW
                  then s1\<lparr>currentMatrix := Addr_modelview, transformRequired := False\<rparr>
                  else s1))"

text \<open>
  \<^verbatim>\<open>rlLoadIdentity\<close>, \<^verbatim>\<open>rlTranslatef\<close>, \<^verbatim>\<open>rlRotatef\<close>, \<^verbatim>\<open>rlScalef\<close>,
  \<^verbatim>\<open>rlMultMatrixf\<close>, \<^verbatim>\<open>rlFrustum\<close>, \<^verbatim>\<open>rlOrtho\<close> and \<^verbatim>\<open>rlOrthoTilt\<close> all have
  the shape \<^verbatim>\<open>*RLGL.State.currentMatrix = f(*RLGL.State.currentMatrix)\<close>, with \<open>f\<close> built
  from raymath.h (float arithmetic, not part of this file). \<open>rlUpdateCurrent f\<close> is that
  shape.
\<close>

definition rlUpdateCurrent :: "(Matrix \<Rightarrow> Matrix) \<Rightarrow> rlgl \<Rightarrow> rlgl" where
  "rlUpdateCurrent f s = set_current (f (get_current s)) s"

text \<open>Sequences of calls on the matrix stack, run in order until one faults.\<close>

datatype stack_call = Push | Pop | Update "Matrix \<Rightarrow> Matrix" | MatrixMode int

fun stack_step :: "stack_call \<Rightarrow> rlgl \<Rightarrow> rlgl result" where
  "stack_step Push s = rlPushMatrix s"
| "stack_step Pop s = rlPopMatrix s"
| "stack_step (Update f) s = Inr (rlUpdateCurrent f s)"
| "stack_step (MatrixMode mode) s = Inr (rlMatrixMode mode s)"

fun run_stack :: "stack_call list \<Rightarrow> rlgl \<Rightarrow> rlgl result" where
  "run_stack [] s = Inr s"
| "run_stack (c # cs) s =
     (case stack_step c s of Inl f \<Rightarrow> Inl f | Inr s' \<Rightarrow> run_stack cs s')"

text \<open>
  \<open>nested d cs\<close>: with \<open>d\<close> pushes open, the calls \<open>cs\<close> are pushes, pops and updates of
  the current matrix only, no pop closes a push that was not opened in \<open>cs\<close> or among the
  \<open>d\<close>, and every push is closed at the end. \<open>balanced cs\<close> is \<open>nested 0 cs\<close>.
\<close>

fun nested :: "nat \<Rightarrow> stack_call list \<Rightarrow> bool" where
  "nested d [] = (d = 0)"
| "nested d (Push # cs) = nested (Suc d) cs"
| "nested d (Pop # cs) = (d > 0 \<and> nested (d - 1) cs)"
| "nested d (Update f # cs) = nested d cs"
| "nested d (MatrixMode mode # cs) = False"

abbreviation balanced :: "stack_call list \<Rightarrow> bool" where
  "balanced cs \<equiv> nested 0 cs"

text \<open>
  \<open>within_capacity c cs\<close>: started with the counter at \<open>c\<close>, every push of \<open>cs\<close> finds
  the counter below \<open>MAX_MATRIX_STACK_SIZE\<close>.
\<close>

fun within_capacity :: "int \<Rightarrow> stack_call list \<Rightarrow> bool" where
  "within_capacity c [] = True"
| "within_capacity c (Push # cs) = (c < MAX_MATRIX_STACK_SIZE \<and> within_capacity (c + 1) cs)"
| "within_capacity c (Pop # cs) = within_capacity (if c > 0 then c - 1 else c) cs"
| "within_capacity c (_ # cs) = within_capacity c cs"

text \<open>The matrix seen through \<^verbatim>\<open>currentMatrix\<close> after a run, if the run did not fault.\<close>

definition visible :: "rlgl result \<Rightarrow> Matrix option" where
  "visible r = (case r of Inl f \<Rightarrow> None | Inr s \<Rightarrow> Some (get_current s))"

text \<open>
  The condition on the state before a push under which the redirection of
  \<^verbatim>\<open>currentMatrix\<close> in \<^verbatim>\<open>rlPushMatrix\<close> is undone by the matching
  \<^verbatim>\<open>rlPopMatrix\<close>: in mode \<^verbatim>\<open>RL_MODELVIEW\<close> the pointer is at the base modelview
  matrix with an empty stack, or already at the transform matrix with a non-empty one.
\<close>

definition push_ready :: "rlgl \<Rightarrow> bool" where
  "push_ready s \<longleftrightarrow>
     (currentMatrixMode s = RL_MODELVIEW \<longrightarrow>
        currentMatrix s = (if stackCounter s = 0 then Addr_modelview else Addr_transform))"

section \<open>The texture registry\<close>

text \<open>
  \<^verbatim>\<open>rlGetPica200Tex\<close> returns a pointer to the \<^verbatim>\<open>tex\<close> field of the first node with
  the id, or \<^verbatim>\<open>NULL\<close>: here the position of that node in the list, or \<open>None\<close>.
\<close>

fun rlGetPica200Tex :: "u32 \<Rightarrow> TexLinkedList_t list \<Rightarrow> nat option" where
  "rlGetPica200Tex i [] = None"
| "rlGetPica200Tex i (node # nxt) =
     (if node_id node = i then Some 0 else map_option Suc (rlGetPica200Tex i nxt))"

definition new_node :: "u32 \<Rightarrow> TexLinkedList_t" where
  "new_node i = \<lparr>node_id = i, node_tex = None\<rparr>"

text \<open>
  The \<^verbatim>\<open>while\<close> loop of \<^verbatim>\<open>rlNewPica200Tex\<close>, on the list that starts at \<^verbatim>\<open>curr\<close>:
  the id returned and the list that \<^verbatim>\<open>prev->next\<close> starts afterwards. In a gap the
  new node is linked to \<^verbatim>\<open>curr->next\<close>, so it takes the place of \<^verbatim>\<open>curr\<close>, which is no
  longer in the list.
\<close>

fun new_scan :: "u32 \<Rightarrow> TexLinkedList_t list \<Rightarrow> u32 \<times> TexLinkedList_t list" where
  "new_scan newId [] = (newId, [new_node newId])"
| "new_scan newId (node # nxt) =
     (if newId < node_id node then (newId, new_node newId # nxt)
      else (let (r, rest) = new_scan (node_id node + 1) nxt in (r, node # rest)))"

definition rlNewPica200Tex :: "rlgl \<Rightarrow> u32 \<times> rlgl" where
  "rlNewPica200Tex s =
     (case rootTex s of
        [] \<Rightarrow> (1, s\<lparr>rootTex := [new_node 1]\<rparr>)
      | rootNode # rest \<Rightarrow>
          (let (newId, rest') = new_scan (1 + 1) rest
           in (newId, s\<lparr>rootTex := rootNode # rest'\<rparr>)))"

text \<open>
  The \<^verbatim>\<open>while\<close> loop of \<^verbatim>\<open>rlRemovePica200Tex\<close>. \<^verbatim>\<open>prev\<close> is set to the root
  before the loop and never advanced, so on a match the root's \<^verbatim>\<open>next\<close> becomes the
  match's \<^verbatim>\<open>next\<close>: \<open>Some\<close> of the nodes after the match, or \<open>None\<close> without a match.
\<close>

fun remove_scan :: "u32 \<Rightarrow> TexLinkedList_t list \<Rightarrow> TexLinkedList_t list option" where
  "remove_scan i [] = None"
| "remove_scan i (node # nxt) = (if node_id node = i then Some nxt else remove_scan i nxt)"

definition rlRemovePica200Tex :: "u32 \<Rightarrow> rlgl \<Rightarrow> rlgl" where
  "rlRemovePica200Tex i s =
     (case rootTex s of
        [] \<Rightarrow> s
      | rootNode # rest \<Rightarrow>
          (if node_id rootNode = i then s\<lparr>rootTex := rest\<rparr>
           else (case remove_scan i rest of
                   None \<Rightarrow> s
                 | Some after \<Rightarrow> s\<lparr>rootTex := rootNode # after\<rparr>)))"

section \<open>Loading a texture\<close>

text \<open>\<open>None\<close> is \<^verbatim>\<open>(GPU_TEXCOLOR)-1\<close>.\<close>

fun rlGetPica200TextureFormat :: "PixelFormat \<Rightarrow> GPU_TEXCOLOR option" where
  "rlGetPica200TextureFormat PIXELFORMAT_COMPRESSED_ASTC_4x4_RGBA = None"
| "rlGetPica200TextureFormat PIXELFORMAT_COMPRESSED_ASTC_8x8_RGBA = None"
| "rlGetPica200TextureFormat PIXELFORMAT_COMPRESSED_DXT1_RGB = None"
| "rlGetPica200TextureFormat PIXELFORMAT_COMPRESSED_DXT1_RGBA = None"
| "rlGetPica200TextureFormat PIXELFORMAT_COMPRESSED_DXT3_RGBA = None"
| "rlGetPica200TextureFormat PIXELFORMAT_COMPRESSED_DXT5_RGBA = None"
| "rlGetPica200TextureFormat PIXELFORMAT_COMPRESSED_ETC1_RGB = Some GPU_ETC1"
| "rlGetPica200TextureFormat PIXELFORMAT_COMPRESSED_ETC2_EAC_RGBA = None"
| "rlGetPica200TextureFormat PIXELFORMAT_COMPRESSED_ETC2_RGB = None"
| "rlGetPica200TextureFormat PIXELFORMAT_COMPRESSED_PVRT_RGB = None"
| "rlGetPica200TextureFormat PIXELFORMAT_COMPRESSED_PVRT_RGBA = None"
| "rlGetPica200TextureFormat PIXELFORMAT_UNCOMPRESSED_GRAY_ALPHA = Some GPU_LA8"
| "rlGetPica200TextureFormat PIXELFORMAT_UNCOMPRESSED_GRAYSCALE = Some GPU_L8"
| "rlGetPica200TextureFormat PIXELFORMAT_UNCOMPRESSED_R32 = None"
| "rlGetPica200TextureFormat PIXELFORMAT_UNCOMPRESSED_R32G32B32 = None"
| "rlGetPica200TextureFormat PIXELFORMAT_UNCOMPRESSED_R32G32B32A32 = None"
| "rlGetPica200TextureFormat PIXELFORMAT_UNCOMPRESSED_R4G4B4A4 = Some GPU_RGBA4"
| "rlGetPica200TextureFormat PIXELFORMAT_UNCOMPRESSED_R5G5B5A1 = Some GPU_RGBA5551"
| "rlGetPica200TextureFormat PIXELFORMAT_UNCOMPRESSED_R5G6B5 = Some GPU_RGB565"
| "rlGetPica200TextureFormat PIXELFORMAT_UNCOMPRESSED_R8G8B8 = Some GPU_RGB8"
| "rlGetPica200TextureFormat PIXELFORMAT_UNCOMPRESSED_R8G8B8A8 = Some GPU_RGBA8"

fun rlGetPica200TextureBpp :: "GPU_TEXCOLOR \<Rightarrow> nat" where
  "rlGetPica200TextureBpp GPU_RGBA8 = 32"
| "rlGetPica200TextureBpp GPU_RGB8 = 24"
| "rlGetPica200TextureBpp GPU_RGBA5551 = 16"
| "rlGetPica200TextureBpp GPU_RGB565 = 16"
| "rlGetPica200TextureBpp GPU_RGBA4 = 16"
| "rlGetPica200TextureBpp GPU_LA8 = 16"
| "rlGetPica200TextureBpp GPU_HILO8 = 16"
| "rlGetPica200TextureBpp GPU_L8 = 8"
| "rlGetPica200TextureBpp GPU_A8 = 8"
| "rlGetPica200TextureBpp GPU_LA4 = 8"
| "rlGetPica200TextureBpp GPU_L4 = 4"
| "rlGetPica200TextureBpp GPU_A4 = 4"
| "rlGetPica200TextureBpp GPU_ETC1 = 4"
| "rlGetPica200TextureBpp GPU_ETC1A4 = 4"

definition swizzleArr :: "nat list" where
  "swizzleArr =
    [ 0,  1,  4,  5, 16, 17, 20, 21,
      2,  3,  6,  7, 18, 19, 22, 23,
      8,  9, 12, 13, 24, 25, 28, 29,
     10, 11, 14, 15, 26, 27, 30, 31,
     32, 33, 36, 37, 48, 49, 52, 53,
     34, 35, 38, 39, 50, 51, 54, 55,
     40, 41, 44, 45, 56, 57, 60, 61,
     42, 43, 46, 47, 58, 59, 62, 63]"

definition checkTexSize :: "u32 \<Rightarrow> bool" where
  "checkTexSize sz =
     (if sz < 8 \<or> sz > 1024 then False
      else if (sz AND (sz - 1)) \<noteq> 0 then False
      else True)"

text \<open>
  Modelled from the spec: \<^verbatim>\<open>C3D_TexInit\<close> is the native driver's texture constructor
  (citro3d), not part of this file. It fails when the width or the height is not a power of
  two within 8 .. 1024, the test that \<^verbatim>\<open>checkTexSize\<close> of this file repeats for the
  warning, and when the driver cannot allocate the texture's storage (\<open>alloc_ok\<close>). The
  \<^verbatim>\<open>int\<close> arguments are converted to unsigned as the call of \<^verbatim>\<open>checkTexSize(u32)\<close> does.
\<close>

definition C3D_TexInit :: "int \<Rightarrow> int \<Rightarrow> bool \<Rightarrow> bool" where
  "C3D_TexInit width height alloc_ok \<longleftrightarrow>
     checkTexSize (word_of_int width) \<and> checkTexSize (word_of_int height) \<and> alloc_ok"

text \<open>
  Modelled from the spec: \<^verbatim>\<open>C3D_TexUpload\<close> (citro3d) takes the buffer as it is; the
  texture the pointer \<open>p\<close> addresses holds these bytes afterwards.
\<close>

definition C3D_TexUpload :: "nat \<Rightarrow> u8 list \<Rightarrow> rlgl \<Rightarrow> rlgl" where
  "C3D_TexUpload p bytes s =
     s\<lparr>rootTex := (rootTex s)[p := (rootTex s ! p)
          \<lparr>node_tex := map_option (\<lambda>t. t\<lparr>tex_data := Some bytes\<rparr>) (node_tex (rootTex s ! p))\<rparr>]\<rparr>"

text \<open>
  \<^verbatim>\<open>RL_MALLOC(n)\<close>: \<open>n\<close> bytes of indeterminate content, taken from \<open>uninit\<close>.
\<close>

definition RL_MALLOC :: "nat \<Rightarrow> u8 list \<Rightarrow> u8 list" where
  "RL_MALLOC n uninit = take n uninit @ replicate (n - length uninit) 0"

text \<open>
  The loops of \<^verbatim>\<open>rlLoadTexture\<close> that fill \<^verbatim>\<open>swizzled\<close>. They are reached only after
  \<^verbatim>\<open>C3D_TexInit\<close> has accepted the width and the height, so the \<^verbatim>\<open>int\<close> variables of
  the source hold natural numbers below \<open>2 ^ 25\<close> throughout, and the subtraction in
  \<^verbatim>\<open>pixelNum\<close> does not go below zero (\<open>pixelY + i / 8 < height\<close> inside the loops).

  The two innermost loops copy \<^verbatim>\<open>numPixels = 2\<close> pixels of \<open>numBytes\<close> bytes from
  \<^verbatim>\<open>src\<close> to \<^verbatim>\<open>dest\<close>, reversing the bytes of each.
\<close>

definition swap_bytes :: "u8 list \<Rightarrow> nat \<Rightarrow> nat \<Rightarrow> nat \<Rightarrow> u8 list \<Rightarrow> u8 list" where
  "swap_bytes data src dest numBytes buf =
     fold (\<lambda>j. fold (\<lambda>k b. b[dest + numBytes * j + numBytes - k - 1 := data ! (src + k + numBytes * j)])
                  [0..<numBytes])
          [0..<2] buf"

definition swizzle_tile ::
  "u8 list \<Rightarrow> nat \<Rightarrow> nat \<Rightarrow> nat \<Rightarrow> nat \<Rightarrow> nat \<Rightarrow> u8 list \<Rightarrow> u8 list" where
  "swizzle_tile data width height bpp w h buf =
     (let pixelX = w * 8;
          pixelY = h * 8;
          tileNum = w + h * width div 8
      in fold (\<lambda>i b.
            let pixelNum = pixelX + i mod 8 + (height - (pixelY + i div 8) - 1) * width;
                src = pixelNum * bpp div 8;
                dest = tileNum * 64 * bpp div 8 + swizzleArr ! i * bpp div 8;
                numBytes = (if bpp div 8 = 0 then 1 else bpp div 8)
            in swap_bytes data src dest numBytes b)
          (map (\<lambda>n. 2 * n) [0..<32]) buf)"

definition swizzle :: "u8 list \<Rightarrow> nat \<Rightarrow> nat \<Rightarrow> nat \<Rightarrow> u8 list \<Rightarrow> u8 list" where
  "swizzle data width height bpp buf =
     fold (\<lambda>w. fold (\<lambda>h. swizzle_tile data width height bpp w h) [0..<height div 8])
          [0..<width div 8] buf"

text \<open>
  \<^verbatim>\<open>rlLoadTexture\<close>. Besides the arguments of the C function: \<open>alloc_ok\<close>, whether the
  driver can allocate the texture, and \<open>uninit\<close>, the content of the fresh
  \<^verbatim>\<open>swizzled\<close> buffer.
\<close>

definition rlLoadTexture ::
  "u8 list \<Rightarrow> int \<Rightarrow> int \<Rightarrow> PixelFormat \<Rightarrow> int \<Rightarrow> bool \<Rightarrow> u8 list \<Rightarrow> rlgl \<Rightarrow> (u32 \<times> rlgl) result" where
  "rlLoadTexture data width height format mipmapCount alloc_ok uninit s =
     (case rlGetPica200TextureFormat format of
        None \<Rightarrow>
          Inr (0, TRACELOG LOG_WARNING ''TEXTURE: Failed to load texture''
                    (TRACELOG LOG_WARNING ''TEXTURE: Current format not supported (%i)'' s))
      | Some texColor \<Rightarrow>
          (let (newId, s1) = rlNewPica200Tex s
           in case rlGetPica200Tex newId (rootTex s1) of
                None \<Rightarrow> Inl (NullTexPointer, s1)
              | Some p \<Rightarrow>
                  if \<not> C3D_TexInit width height alloc_ok
                  then Inr (0, TRACELOG LOG_WARNING
                                 ''TEXTURE: Failed to load texture (invalid size): %d %d'' s1)
                  else
                    (let s2 = s1\<lparr>rootTex := (rootTex s1)[p := (rootTex s1 ! p)
                                 \<lparr>node_tex := Some \<lparr>tex_width = width, tex_height = height,
                                                     tex_fmt = texColor, tex_data = None\<rparr>\<rparr>]\<rparr>;
                         bpp = rlGetPica200TextureBpp texColor;
                         swizzled = swizzle data (nat width) (nat height) bpp
                                      (RL_MALLOC (nat width * nat height * bpp div 8) uninit);
                         s3 = C3D_TexUpload p swizzled s2
                     in Inr (newId, TRACELOG LOG_INFO
                           ''TEXTURE: [ID %i] Texture loaded successfully (%ix%i - %i mipmaps)'' s3))))"

definition rlUnloadTexture :: "u32 \<Rightarrow> rlgl \<Rightarrow> rlgl" where
  "rlUnloadTexture i s =
     (case rlGetPica200Tex i (rootTex s) of
        None \<Rightarrow> TRACELOG LOG_WARNING ''TEXTURE: [ID %i] Unable to unload texture'' s
      | Some p \<Rightarrow> rlRemovePica200Tex i s)"

text \<open>The ids of the live nodes, in list order.\<close>

definition live_ids :: "rlgl \<Rightarrow> u32 list" where
  "live_ids s = map node_id (rootTex s)"

section \<open>The attribute cache\<close>

text \<open>
  The array \<^verbatim>\<open>tmp.m\<close> that \<^verbatim>\<open>rlBegin\<close> fills from a matrix, as the list of
  \<^verbatim>\<open>m[0] .. m[15]\<close>.
\<close>

definition C3D_Mtx_of :: "Matrix \<Rightarrow> float list" where
  "C3D_Mtx_of M =
     [m3 M, m2 M, m1 M, m0 M, m7 M, m6 M, m5 M, m4 M,
      m11 M, m10 M, m9 M, m8 M, m15 M, m14 M, m13 M, m12 M]"

definition rlBegin :: "int \<Rightarrow> rlgl \<Rightarrow> rlgl" where
  "rlBegin mode s =
     (let s1 =
        (if mode = RL_LINES then s\<lparr>gpu := gpu s @ [C3D_ImmDrawBegin GPU_TRIANGLE_STRIP]\<rparr>
         else if mode = RL_TRIANGLES then s\<lparr>gpu := gpu s @ [C3D_ImmDrawBegin GPU_TRIANGLES]\<rparr>
         else if mode = RL_QUADS then s\<lparr>gpu := gpu s @ [C3D_ImmDrawBegin GPU_TRIANGLE_STRIP]\<rparr>
         else s);
          s2 = s1\<lparr>paramMode := mode, paramNum := 0\<rparr>;
          pro = (if bottom s2 then projectionBottom s2 else projection s2);
          s3 = s2\<lparr>gpu := gpu s2 @ [C3D_FVUnifMtx4x4 (uLoc_projection s2) (C3D_Mtx_of pro)]\<rparr>;
          s4 = s3\<lparr>gpu := gpu s3 @ [C3D_FVUnifMtx4x4 (uLoc_modelView s3) (C3D_Mtx_of (modelview s3))]\<rparr>;
          s5 = s4\<lparr>paramsUsed := fold (\<lambda>i u. u[i := False]) [0..<SHD_MAX_PARAMS] (paramsUsed s4)\<rparr>
      in s5\<lparr>lastParams := (lastParams s5)
               [SHD_POSITION := Vector4 0 0 0 0,
                SHD_TEXCOORD := Vector4 0 0 0 0,
                SHD_COLOR := Vector4 1 1 1 1,
                SHD_NORMAL := Vector4 0 0 1 0]\<rparr>)"


definition rlBackupParams :: "rlgl \<Rightarrow> rlgl" where
  "rlBackupParams s =
     s\<lparr>backupParams :=
         fold (\<lambda>i b. b[i := Vector4 (vx (lastParams s ! i)) (vy (lastParams s ! i))
                                    (vz (lastParams s ! i)) (vw (lastParams s ! i))])
              [0..<SHD_MAX_PARAMS] (backupParams s)\<rparr>"

text \<open>
  \<^verbatim>\<open>rlSendAttr(attribs)\<close>: \<open>attribs\<close> is the content of the array the pointer addresses
  (\<^verbatim>\<open>lastParams\<close> or \<^verbatim>\<open>backupParams\<close>; the function does not write to either).
  \<^verbatim>\<open>shaderNumParams\<close> is 4 at program start and 3 after \<^verbatim>\<open>rlglInit\<close>, never above
  \<^verbatim>\<open>SHD_MAX_PARAMS\<close>.
\<close>

definition rlSendAttr :: "Vector4 list \<Rightarrow> rlgl \<Rightarrow> rlgl" where
  "rlSendAttr attribs s =
     fold (\<lambda>i t. t\<lparr>gpu := gpu t @ [C3D_ImmSendAttrib (vx (attribs ! i)) (vy (attribs ! i))
                                                      (vz (attribs ! i)) (vw (attribs ! i))],
                    paramsUsed := (paramsUsed t)[i := False]\<rparr>)
          [0..<nat (shaderNumParams s)] s"

text \<open>The remainder of C's \<^verbatim>\<open>%\<close>, which truncates towards zero.\<close>

definition c_rem :: "int \<Rightarrow> int \<Rightarrow> int" where
  "c_rem a b = a - b * (sgn a * sgn b * (\<bar>a\<bar> div \<bar>b\<bar>))"

definition rlPicaAttrFlush :: "rlgl \<Rightarrow> rlgl" where
  "rlPicaAttrFlush s =
     (if paramMode s = RL_LINES
      then s\<lparr>paramNum := (if paramNum s = 0 then 1 else 0)\<rparr>
      else if paramMode s = RL_QUADS
      then
        (let s1 =
           (if paramNum s = 2
            then (let sb = rlBackupParams s
                  in sb\<lparr>paramsUsed := fold (\<lambda>i u. u[i := False])
                                          [0..<nat (shaderNumParams sb)] (paramsUsed sb)\<rparr>)
            else if paramNum s = 3
            then (let sl = rlSendAttr (lastParams s) s in rlSendAttr (backupParams sl) sl)
            else rlSendAttr (lastParams s) s)
         in s1\<lparr>paramNum := c_rem (paramNum s1 + 1) 4\<rparr>)
      else rlSendAttr (lastParams s) s)"

text \<open>
  \<^verbatim>\<open>rlVertex2i(x, y)\<close> and \<^verbatim>\<open>rlColor4ub(r, g, b, a)\<close> convert their arguments in
  float32 before they store them. The conversions are not interpreted here: the
  definitions take their results, \<open>fx\<close> and \<open>fy\<close> for \<^verbatim>\<open>(float)x\<close> and \<^verbatim>\<open>(float)y\<close>, and
  \<open>fr\<close>, \<open>fg\<close>, \<open>fb\<close>, \<open>fa\<close> for \<^verbatim>\<open>(float)r/255\<close> to \<^verbatim>\<open>(float)a/255\<close>.
\<close>

definition rlVertex2i :: "float \<Rightarrow> float \<Rightarrow> rlgl \<Rightarrow> rlgl" where
  "rlVertex2i fx fy s =
     (let s1 = (if paramsUsed s ! SHD_POSITION \<and> int SHD_POSITION < shaderNumParams s
                then rlPicaAttrFlush s else s)
      in s1\<lparr>lastParams := (lastParams s1)[SHD_POSITION := Vector4 fx fy 0 0],
             paramsUsed := (paramsUsed s1)[SHD_POSITION := True]\<rparr>)"

definition rlVertex2f :: "float \<Rightarrow> float \<Rightarrow> rlgl \<Rightarrow> rlgl" where
  "rlVertex2f x y s =
     (let s1 = (if paramsUsed s ! SHD_POSITION \<and> int SHD_POSITION < shaderNumParams s
                then rlPicaAttrFlush s else s)
      in s1\<lparr>lastParams := (lastParams s1)[SHD_POSITION := Vector4 x y (currentDepth s1) 0],
             paramsUsed := (paramsUsed s1)[SHD_POSITION := True]\<rparr>)"

definition rlVertex3f :: "float \<Rightarrow> float \<Rightarrow> float \<Rightarrow> rlgl \<Rightarrow> rlgl" where
  "rlVertex3f x y z s =
     (let s1 = (if paramsUsed s ! SHD_POSITION \<and> int SHD_POSITION < shaderNumParams s
                then rlPicaAttrFlush s else s)
      in s1\<lparr>lastParams := (lastParams s1)[SHD_POSITION := Vector4 x y z 0],
             paramsUsed := (paramsUsed s1)[SHD_POSITION := True]\<rparr>)"

definition rlTexCoord2f :: "float \<Rightarrow> float \<Rightarrow> rlgl \<Rightarrow> rlgl" where
  "rlTexCoord2f x y s =
     (let s1 = (if paramsUsed s ! SHD_TEXCOORD \<and> int SHD_TEXCOORD < shaderNumParams s
                then rlPicaAttrFlush s else s)
      in s1\<lparr>lastParams := (lastParams s1)[SHD_TEXCOORD := Vector4 x y 0 0],
             paramsUsed := (paramsUsed s1)[SHD_TEXCOORD := True]\<rparr>)"

definition rlNormal3f :: "float \<Rightarrow> float \<Rightarrow> float \<Rightarrow> rlgl \<Rightarrow> rlgl" where
  "rlNormal3f x y z s =
     (let s1 = (if paramsUsed s ! SHD_NORMAL \<and> int SHD_NORMAL < shaderNumParams s
                then rlPicaAttrFlush s else s)
      in s1\<lparr>lastParams := (lastParams s1)[SHD_NORMAL := Vector4 x y z 0],
             paramsUsed := (paramsUsed s1)[SHD_NORMAL := True]\<rparr>)"

definition rlColor4ub :: "float \<Rightarrow> float \<Rightarrow> float \<Rightarrow> float \<Rightarrow> rlgl \<Rightarrow> rlgl" where
  "rlColor4ub fr fg fb fa s =
     (let s1 = (if paramsUsed s ! SHD_COLOR \<and> int SHD_COLOR < shaderNumParams s
                then rlPicaAttrFlush s else s)
      in s1\<lparr>lastParams := (lastParams s1)[SHD_COLOR := Vector4 fr fg fb fa],
             paramsUsed := (paramsUsed s1)[SHD_COLOR := True]\<rparr>)"

definition rlColor3f :: "float \<Rightarrow> float \<Rightarrow> float \<Rightarrow> rlgl \<Rightarrow> rlgl" where
  "rlColor3f x y z s =
     (let s1 = (if paramsUsed s ! SHD_COLOR \<and> int SHD_COLOR < shaderNumParams s
                then rlPicaAttrFlush s else s)
      in s1\<lparr>lastParams := (lastParams s1)[SHD_COLOR := Vector4 x y z 0],
             paramsUsed := (paramsUsed s1)[SHD_COLOR := True]\<rparr>)"

definition rlColor4f :: "float \<Rightarrow> float \<Rightarrow> float \<Rightarrow> float \<Rightarrow> rlgl \<Rightarrow> rlgl" where
  "rlColor4f x y z w s =
     (let s1 = (if paramsUsed s ! SHD_COLOR \<and> int SHD_COLOR < shaderNumParams s
                then rlPicaAttrFlush s else s)
      in s1\<lparr>lastParams := (lastParams s1)[SHD_COLOR := Vector4 x y z w],
             paramsUsed := (paramsUsed s1)[SHD_COLOR := True]\<rparr>)"

text \<open>
  \<^verbatim>\<open>rlEnd\<close>. \<open>dec\<close> stands for the float32 computation
  \<^verbatim>\<open>currentDepth - (1.0f/20000.0f)\<close>: the difference, rounded to a float.
\<close>

definition rlEnd :: "(float \<Rightarrow> float) \<Rightarrow> rlgl \<Rightarrow> rlgl" where
  "rlEnd dec s =
     (let s1 = rlPicaAttrFlush s;
          s2 = s1\<lparr>gpu := gpu s1 @ [C3D_ImmDrawEnd]\<rparr>
      in s2\<lparr>currentDepth := dec (currentDepth s2)\<rparr>)"



text \<open>
  Sequences of setter calls between \<^verbatim>\<open>rlBegin\<close> and \<^verbatim>\<open>rlEnd\<close>. The arguments of
  \<open>Vertex2i\<close> and \<open>Color4ub\<close> are the converted values, as for \<open>rlVertex2i\<close> and
  \<open>rlColor4ub\<close>.
\<close>

datatype attr_call =
    Vertex2i float float
  | Vertex2f float float
  | Vertex3f float float float
  | TexCoord2f float float
  | Normal3f float float float
  | Color4ub float float float float
  | Color3f float float float
  | Color4f float float float float

fun attr_step :: "attr_call \<Rightarrow> rlgl \<Rightarrow> rlgl" where
  "attr_step (Vertex2i fx fy) s = rlVertex2i fx fy s"
| "attr_step (Color4ub fr fg fb fa) s = rlColor4ub fr fg fb fa s"
| "attr_step (Vertex2f x y) s = rlVertex2f x y s"
| "attr_step (Vertex3f x y z) s = rlVertex3f x y z s"
| "attr_step (TexCoord2f x y) s = rlTexCoord2f x y s"
| "attr_step (Normal3f x y z) s = rlNormal3f x y z s"
| "attr_step (Color3f x y z) s = rlColor3f x y z s"
| "attr_step (Color4f x y z w) s = rlColor4f x y z w s"

fun run_attrs :: "attr_call list \<Rightarrow> rlgl \<Rightarrow> rlgl" where
  "run_attrs [] s = s"
| "run_attrs (c # cs) s = run_attrs cs (attr_step c s)"

text \<open>
  The value a slot holds after a sequence of setter calls, in the words of the
  specification: the one last set, or the value \<open>v\<close> it had before when none of the calls
  sets it.
\<close>

fun last_texcoord :: "Vector4 \<Rightarrow> attr_call list \<Rightarrow> Vector4" where
  "last_texcoord v [] = v"
| "last_texcoord v (TexCoord2f x y # cs) = last_texcoord (Vector4 x y 0 0) cs"
| "last_texcoord v (_ # cs) = last_texcoord v cs"

fun last_color :: "Vector4 \<Rightarrow> attr_call list \<Rightarrow> Vector4" where
  "last_color v [] = v"
| "last_color v (Color4ub fr fg fb fa # cs) = last_color (Vector4 fr fg fb fa) cs"
| "last_color v (Color3f x y z # cs) = last_color (Vector4 x y z 0) cs"
| "last_color v (Color4f x y z w # cs) = last_color (Vector4 x y z w) cs"
| "last_color v (_ # cs) = last_color v cs"

text \<open>
  The position a call submits when the depth counter is \<open>d\<close>; \<open>None\<close> for a call that
  submits another attribute.
\<close>

fun position_of :: "float \<Rightarrow> attr_call \<Rightarrow> Vector4 option" where
  "position_of d (Vertex2i fx fy) = Some (Vector4 fx fy 0 0)"
| "position_of d (Vertex2f x y) = Some (Vector4 x y d 0)"
| "position_of d (Vertex3f x y z) = Some (Vector4 x y z 0)"
| "position_of d _ = None"

text \<open>The attributes sent to the driver, in order: the trace without the other calls.\<close>

fun sent :: "gpu_call list \<Rightarrow> Vector4 list" where
  "sent [] = []"
| "sent (C3D_ImmSendAttrib x y z w # cs) = Vector4 x y z w # sent cs"
| "sent (_ # cs) = sent cs"

text \<open>The call that sends one attribute, and the flags after the first \<open>n\<close> are cleared.\<close>

definition send_of :: "Vector4 \<Rightarrow> gpu_call" where
  "send_of v = C3D_ImmSendAttrib (vx v) (vy v) (vz v) (vw v)"

definition clear_flags :: "nat \<Rightarrow> bool list \<Rightarrow> bool list" where
  "clear_flags n u = fold (\<lambda>i u. u[i := False]) [0..<n] u"

text \<open>
  The states the attribute cache is used in: the arrays have their declared size and
  \<^verbatim>\<open>shaderNumParams\<close> does not exceed it.
\<close>

definition cache_ok :: "rlgl \<Rightarrow> bool" where
  "cache_ok s \<longleftrightarrow> arrays_ok s \<and> shaderNumParams s \<le> int SHD_MAX_PARAMS"

section \<open>Concrete states\<close>

text \<open>Modelled from the spec: \<^verbatim>\<open>MatrixIdentity()\<close> of raymath.h, the identity transform.\<close>

definition MatrixIdentity :: Matrix where
  "MatrixIdentity =
     \<lparr>m0 = 1, m1 = 0, m2 = 0, m3 = 0, m4 = 0, m5 = 1, m6 = 0, m7 = 0,
      m8 = 0, m9 = 0, m10 = 1, m11 = 0, m12 = 0, m13 = 0, m14 = 0, m15 = 1\<rparr>"

text \<open>
  The state \<^verbatim>\<open>rlglInit\<close> sets up, before it loads the default texture: identity
  matrices, an empty matrix stack and an empty registry, three shader attributes, the
  zero-initialised statics.
\<close>

definition start_state :: rlgl where
  "start_state =
     \<lparr>currentMatrixMode = 0, currentMatrix = Addr_modelview,
      modelview = MatrixIdentity, projection = MatrixIdentity,
      projectionBottom = MatrixIdentity, transform = MatrixIdentity,
      transformRequired = False,
      stack = replicate (nat MAX_MATRIX_STACK_SIZE) MatrixIdentity, stackCounter = 0,
      bottom = False, uLoc_projection = 0, uLoc_modelView = 4,
      rootTex = [],
      paramsUsed = replicate SHD_MAX_PARAMS False,
      lastParams = replicate SHD_MAX_PARAMS (Vector4 0 0 0 0),
      backupParams = replicate SHD_MAX_PARAMS (Vector4 0 0 0 0),
      shaderNumParams = 3, paramMode = 0, paramNum = 0, currentDepth = 0,
      gpu = [], tracelog = []\<rparr>"

text \<open>
  A matrix as \<^verbatim>\<open>rlTranslatef(5, 0, 0)\<close> leaves it when applied to the identity.
\<close>

definition translated :: Matrix where
  "translated = MatrixIdentity\<lparr>m12 := 5\<rparr>"

text \<open>
  The state after \<^verbatim>\<open>rlMatrixMode(RL_PROJECTION); rlPushMatrix(); rlMatrixMode(RL_MODELVIEW)\<close>
  and a translation of the modelview matrix: the stack holds one saved projection matrix
  and \<^verbatim>\<open>currentMatrix\<close> points to the base modelview matrix.
\<close>

definition setup_calls :: "stack_call list" where
  "setup_calls = [MatrixMode RL_PROJECTION, Push, MatrixMode RL_MODELVIEW, Update (\<lambda>_. translated)]"

definition nested_modelview_state :: rlgl where
  "nested_modelview_state =
     start_state\<lparr>currentMatrixMode := RL_MODELVIEW, currentMatrix := Addr_modelview,
                 modelview := translated, stackCounter := 1\<rparr>"

text \<open>
  A quad drawn the way raylib does it, position first: the calls between
  \<^verbatim>\<open>rlBegin(RL_QUADS)\<close> and \<^verbatim>\<open>rlEnd()\<close>, and the state before \<^verbatim>\<open>rlEnd\<close>.
\<close>

definition quad_calls :: "attr_call list" where
  "quad_calls =
     [Vertex2f 0 0, Color4f 1 0 0 1, Vertex2f 10 0, Color4f 0 1 0 1,
      Vertex2f 10 10, Color4f 0 0 1 1, Vertex2f 0 10, Color4f 1 1 0 1]"

definition quad_state :: rlgl where
  "quad_state = run_attrs quad_calls (rlBegin RL_QUADS start_state)"

text \<open>
  A quad given by positions only: the state after \<^verbatim>\<open>rlBegin(RL_QUADS)\<close> and three
  positions, the third pending.
\<close>

definition quad_positions_state :: rlgl where
  "quad_positions_state =
     run_attrs [Vertex2f 1 1, Vertex2f 2 2, Vertex2f 3 3] (rlBegin RL_QUADS start_state)"

text \<open>One vertex of a line: the state after \<^verbatim>\<open>rlBegin(RL_LINES)\<close>, a position and a colour.\<close>

definition line_state :: rlgl where
  "line_state = run_attrs [Vertex2f 3 4, Color4f 1 0 0 1] (rlBegin RL_LINES start_state)"

text \<open>The matrix stack after 32 pushes from the start state (each saves an identity matrix).\<close>

definition full_stack_state :: rlgl where
  "full_stack_state = start_state\<lparr>stackCounter := MAX_MATRIX_STACK_SIZE\<rparr>"

text \<open>Sequences of calls on the texture registry, with the ids the allocations return.\<close>

datatype registry_call = Allocate | Remove u32

fun run_registry :: "registry_call list \<Rightarrow> rlgl \<Rightarrow> u32 list \<times> rlgl" where
  "run_registry [] s = ([], s)"
| "run_registry (Allocate # cs) s =
     (let (newId, s1) = rlNewPica200Tex s; (ids, s2) = run_registry cs s1 in (newId # ids, s2))"
| "run_registry (Remove i # cs) s = run_registry cs (rlRemovePica200Tex i s)"




definition apply_writes :: "u8 list \<Rightarrow> (nat \<times> nat) list \<Rightarrow> u8 list \<Rightarrow> u8 list" where
  "apply_writes data ws buf = fold (\<lambda>(d, s) b. b[d := data ! s]) ws buf"

text \<open>A texture size the driver accepts: a power of two from 8 to 1024.\<close>

definition tex_size :: "nat \<Rightarrow> bool" where
  "tex_size n \<longleftrightarrow> n \<in> {8, 16, 32, 64, 128, 256, 512, 1024}"


chapter \<open>Properties\<close>

section \<open>The start state\<close>

lemma start_state_ok: "arrays_ok start_state" "cache_ok start_state"
  by (simp_all add: arrays_ok_def cache_ok_def start_state_def)

lemma start_state_fields:
  "currentDepth start_state = 0" "shaderNumParams start_state = 3"
  by (simp_all add: start_state_def)

lemma replicate_update_same: "(replicate n x)[i := x] = replicate n x"
  by (induction n arbitrary: i) (simp_all split: nat.splits)

section \<open>The matrix stack\<close>

lemma get_current_frame [simp]:
  "get_current (s\<lparr>stack := st\<rparr>) = get_current s"
  "get_current (s\<lparr>stackCounter := c\<rparr>) = get_current s"
  "get_current (s\<lparr>transformRequired := b\<rparr>) = get_current s"
  by (simp_all add: get_current_def split: matrix_ptr.splits)

lemma run_stack_append:
  "run_stack (cs @ ds) s = (case run_stack cs s of Inl f \<Rightarrow> Inl f | Inr s' \<Rightarrow> run_stack ds s')"
  by (induction cs arbitrary: s) (auto split: sum.splits)

lemma within_capacity_append:
  "within_capacity c (cs @ ds) \<Longrightarrow> within_capacity c cs"
  by (induction c cs rule: within_capacity.induct) auto

lemma rlPushMatrix_ok:
  assumes "0 \<le> stackCounter s" "stackCounter s < MAX_MATRIX_STACK_SIZE"
  shows "rlPushMatrix s =
     Inr (let s2 = (if currentMatrixMode s = RL_MODELVIEW
                    then s\<lparr>transformRequired := True, currentMatrix := Addr_transform\<rparr> else s)
          in s2\<lparr>stack := (stack s2)[nat (stackCounter s) := get_current s2],
                 stackCounter := stackCounter s + 1\<rparr>)"
  using assms by (simp add: rlPushMatrix_def Let_def)

lemma rlPopMatrix_inner:
  assumes "1 < stackCounter s" "stackCounter s \<le> MAX_MATRIX_STACK_SIZE"
  shows "rlPopMatrix s =
     Inr ((set_current (stack s ! nat (stackCounter s - 1)) s)\<lparr>stackCounter := stackCounter s - 1\<rparr>)"
  using assms by (simp add: rlPopMatrix_def Let_def set_current_def split: matrix_ptr.splits)

lemma set_current_frame [simp]:
  "stackCounter (set_current m s) = stackCounter s"
  "stack (set_current m s) = stack s"
  "currentMatrix (set_current m s) = currentMatrix s"
  "currentMatrixMode (set_current m s) = currentMatrixMode s"
  "get_current (set_current m s) = m"
  "currentMatrix s \<noteq> Addr_modelview \<Longrightarrow> modelview (set_current m s) = modelview s"
  by (simp_all add: set_current_def get_current_def split: matrix_ptr.splits)

lemma rlPopMatrix_ok:
  assumes "0 < stackCounter s" "stackCounter s \<le> MAX_MATRIX_STACK_SIZE"
  shows "rlPopMatrix s =
     Inr (let s1 = (set_current (stack s ! nat (stackCounter s - 1)) s)\<lparr>stackCounter := stackCounter s - 1\<rparr>
          in if stackCounter s = 1 \<and> currentMatrixMode s = RL_MODELVIEW
             then s1\<lparr>currentMatrix := Addr_modelview, transformRequired := False\<rparr>
             else s1)"
  using assms by (simp add: rlPopMatrix_def Let_def)

lemma nested_run:
  assumes "nested d cs" "within_capacity (stackCounter s) cs"
    and "stackCounter s = int b + int d" "1 \<le> b" "stackCounter s \<le> MAX_MATRIX_STACK_SIZE"
    and "length (stack s) = nat MAX_MATRIX_STACK_SIZE"
    and "currentMatrixMode s = RL_MODELVIEW \<longrightarrow> currentMatrix s = Addr_transform"
  shows "\<exists>s'. run_stack cs s = Inr s' \<and> stackCounter s' = int b
            \<and> (\<forall>i<b. stack s' ! i = stack s ! i)
            \<and> currentMatrix s' = currentMatrix s
            \<and> currentMatrixMode s' = currentMatrixMode s
            \<and> length (stack s') = nat MAX_MATRIX_STACK_SIZE
            \<and> (currentMatrix s \<noteq> Addr_modelview \<longrightarrow> modelview s' = modelview s)"
  using assms
proof (induction d cs arbitrary: s rule: nested.induct)
  case (1 d)
  then show ?case by simp
next
  case (2 d cs)
  let ?c = "stackCounter s"
  from "2.prems" have c: "0 \<le> ?c" "?c < MAX_MATRIX_STACK_SIZE" by auto
  define s1 where "s1 = (let s2 = (if currentMatrixMode s = RL_MODELVIEW
                    then s\<lparr>transformRequired := True, currentMatrix := Addr_transform\<rparr> else s)
          in s2\<lparr>stack := (stack s2)[nat (stackCounter s) := get_current s2],
                 stackCounter := stackCounter s + 1\<rparr>)"
  have push: "rlPushMatrix s = Inr s1"
    unfolding s1_def by (rule rlPushMatrix_ok [OF c])
  have s1: "stackCounter s1 = int b + int (Suc d)" "length (stack s1) = nat MAX_MATRIX_STACK_SIZE"
    "currentMatrixMode s1 = currentMatrixMode s" "currentMatrix s1 = currentMatrix s"
    "modelview s1 = modelview s" "\<forall>i<b. stack s1 ! i = stack s ! i"
    using "2.prems" by (auto simp: s1_def Let_def)
  have "\<exists>s'. run_stack cs s1 = Inr s' \<and> stackCounter s' = int b
            \<and> (\<forall>i<b. stack s' ! i = stack s1 ! i)
            \<and> currentMatrix s' = currentMatrix s1
            \<and> currentMatrixMode s' = currentMatrixMode s1
            \<and> length (stack s') = nat MAX_MATRIX_STACK_SIZE
            \<and> (currentMatrix s1 \<noteq> Addr_modelview \<longrightarrow> modelview s' = modelview s1)"
    using "2.prems" s1 by (intro "2.IH") (auto simp: ac_simps)
  then show ?case using push s1 by auto
next
  case (3 d cs)
  let ?c = "stackCounter s"
  from "3.prems" have d: "0 < d" and n: "nested (d - 1) cs" by auto
  from "3.prems" d have c: "1 < ?c" by auto
  have cap: "?c \<le> MAX_MATRIX_STACK_SIZE" using "3.prems" by simp
  define s1 where "s1 = (set_current (stack s ! nat (?c - 1)) s)\<lparr>stackCounter := ?c - 1\<rparr>"
  have pop: "rlPopMatrix s = Inr s1"
    unfolding s1_def by (rule rlPopMatrix_inner [OF c cap])
  have s1: "stackCounter s1 = int b + int (d - 1)" "length (stack s1) = nat MAX_MATRIX_STACK_SIZE"
    "currentMatrixMode s1 = currentMatrixMode s" "currentMatrix s1 = currentMatrix s"
    "currentMatrix s \<noteq> Addr_modelview \<longrightarrow> modelview s1 = modelview s" "stack s1 = stack s"
    using "3.prems" d by (auto simp: s1_def)
  have "\<exists>s'. run_stack cs s1 = Inr s' \<and> stackCounter s' = int b
            \<and> (\<forall>i<b. stack s' ! i = stack s1 ! i)
            \<and> currentMatrix s' = currentMatrix s1
            \<and> currentMatrixMode s' = currentMatrixMode s1
            \<and> length (stack s') = nat MAX_MATRIX_STACK_SIZE
            \<and> (currentMatrix s1 \<noteq> Addr_modelview \<longrightarrow> modelview s' = modelview s1)"
  proof (intro "3.IH")
    show "within_capacity (stackCounter s1) cs"
      using "3.prems" c by (simp add: s1_def)
    show "stackCounter s1 = int b + int (d - 1)" by (rule s1)
    show "stackCounter s1 \<le> MAX_MATRIX_STACK_SIZE" using cap by (simp add: s1_def)
  qed (use "3.prems" s1 n d in auto)
  then show ?case using pop s1 by auto
next
  case (4 d f cs)
  define s1 where "s1 = rlUpdateCurrent f s"
  have s1: "stackCounter s1 = int b + int d" "length (stack s1) = nat MAX_MATRIX_STACK_SIZE"
    "currentMatrixMode s1 = currentMatrixMode s" "currentMatrix s1 = currentMatrix s"
    "currentMatrix s \<noteq> Addr_modelview \<longrightarrow> modelview s1 = modelview s" "stack s1 = stack s"
    using "4.prems" by (auto simp: s1_def rlUpdateCurrent_def)
  have "\<exists>s'. run_stack cs s1 = Inr s' \<and> stackCounter s' = int b
            \<and> (\<forall>i<b. stack s' ! i = stack s1 ! i)
            \<and> currentMatrix s' = currentMatrix s1
            \<and> currentMatrixMode s' = currentMatrixMode s1
            \<and> length (stack s') = nat MAX_MATRIX_STACK_SIZE
            \<and> (currentMatrix s1 \<noteq> Addr_modelview \<longrightarrow> modelview s' = modelview s1)"
    using "4.prems" s1 by (intro "4.IH") auto
  then show ?case using s1 by (auto simp: s1_def)
next
  case (5 d mode cs)
  then show ?case by simp
qed

text \<open>
  Claim C6, as amended. Take a state right before an \<^verbatim>\<open>rlPushMatrix\<close>, and calls
  \<open>body\<close> made up of pushes, pops and updates of the current matrix in which every push is
  closed and no pop is left over. If every push finds the counter below
  \<^verbatim>\<open>MAX_MATRIX_STACK_SIZE\<close>, and at the push the mode is not \<^verbatim>\<open>RL_MODELVIEW\<close> or
  \<^verbatim>\<open>currentMatrix\<close> is where \<open>push_ready\<close> says (the base modelview matrix with an empty
  stack, the transform matrix otherwise), then the push, \<open>body\<close> and the matching
  \<^verbatim>\<open>rlPopMatrix\<close> run without a fault, and the matrix seen through \<^verbatim>\<open>currentMatrix\<close>
  after the pop is the one seen right before the push; the counter is back at its value.
\<close>

theorem balanced_push_pop_restores:
  assumes bal: "balanced body"
    and cap: "within_capacity (stackCounter s) (Push # body @ [Pop])"
    and c0: "0 \<le> stackCounter s"
    and len: "length (stack s) = nat MAX_MATRIX_STACK_SIZE"
    and ready: "push_ready s"
  shows "\<exists>s'. run_stack (Push # body @ [Pop]) s = Inr s' \<and> get_current s' = get_current s
           \<and> stackCounter s' = stackCounter s"
proof -
  let ?c = "stackCounter s"
  from cap have c: "?c < MAX_MATRIX_STACK_SIZE" and capb: "within_capacity (?c + 1) body"
    using within_capacity_append [of "?c + 1" body "[Pop]"] by auto
  define s1 where "s1 = (let s2 = (if currentMatrixMode s = RL_MODELVIEW
                    then s\<lparr>transformRequired := True, currentMatrix := Addr_transform\<rparr> else s)
          in s2\<lparr>stack := (stack s2)[nat (stackCounter s) := get_current s2],
                 stackCounter := stackCounter s + 1\<rparr>)"
  have push: "rlPushMatrix s = Inr s1"
    unfolding s1_def by (rule rlPushMatrix_ok [OF c0 c])
  have s1: "stackCounter s1 = int (nat ?c + 1) + int 0" "length (stack s1) = nat MAX_MATRIX_STACK_SIZE"
    "currentMatrixMode s1 = currentMatrixMode s"
    "currentMatrixMode s1 = RL_MODELVIEW \<longrightarrow> currentMatrix s1 = Addr_transform"
    "currentMatrixMode s \<noteq> RL_MODELVIEW \<longrightarrow> currentMatrix s1 = currentMatrix s"
    "modelview s1 = modelview s"
    "stack s1 ! nat ?c = get_current s1"
    using c0 c len by (auto simp: s1_def Let_def)
  have v1: "get_current s1 = (if currentMatrixMode s = RL_MODELVIEW then transform s else get_current s)"
    by (auto simp: s1_def Let_def get_current_def split: matrix_ptr.splits)
  have "\<exists>s2. run_stack body s1 = Inr s2 \<and> stackCounter s2 = int (nat ?c + 1)
            \<and> (\<forall>i<nat ?c + 1. stack s2 ! i = stack s1 ! i)
            \<and> currentMatrix s2 = currentMatrix s1
            \<and> currentMatrixMode s2 = currentMatrixMode s1
            \<and> length (stack s2) = nat MAX_MATRIX_STACK_SIZE
            \<and> (currentMatrix s1 \<noteq> Addr_modelview \<longrightarrow> modelview s2 = modelview s1)"
  proof (intro nested_run [where d = 0])
    show "within_capacity (stackCounter s1) body"
      using capb c0 s1(1) by (simp add: add.commute)
    show "stackCounter s1 \<le> MAX_MATRIX_STACK_SIZE"
      using c c0 s1(1) by simp
  qed (use bal s1 in auto)
  then obtain s2 where s2: "run_stack body s1 = Inr s2" "stackCounter s2 = ?c + 1"
     "stack s2 ! nat ?c = stack s1 ! nat ?c" "currentMatrix s2 = currentMatrix s1"
     "currentMatrixMode s2 = currentMatrixMode s1"
     "currentMatrix s1 \<noteq> Addr_modelview \<longrightarrow> modelview s2 = modelview s1"
    using c0 by auto
  define s3 where "s3 = (set_current (stack s2 ! nat (stackCounter s2 - 1)) s2)\<lparr>stackCounter := stackCounter s2 - 1\<rparr>"
  define s4 where "s4 = (if stackCounter s2 = 1 \<and> currentMatrixMode s2 = RL_MODELVIEW
                  then s3\<lparr>currentMatrix := Addr_modelview, transformRequired := False\<rparr>
                  else s3)"
  have pop: "rlPopMatrix s2 = Inr s4"
    unfolding s4_def s3_def using rlPopMatrix_ok [of s2] c0 c s2(2) by (simp add: Let_def)
  have run: "run_stack (Push # body @ [Pop]) s = Inr s4"
    using push s2(1) pop by (simp add: run_stack_append)
  have top: "stack s2 ! nat (stackCounter s2 - 1) = get_current s1"
    using s2(2,3) s1(7) by simp
  have g3: "get_current s3 = get_current s1"
    unfolding s3_def top by simp
  have "get_current s4 = get_current s"
  proof (cases "currentMatrixMode s = RL_MODELVIEW")
    case True
    with s1 s2 have t: "currentMatrix s2 = Addr_transform" "modelview s2 = modelview s" by auto
    show ?thesis
    proof (cases "?c = 0")
      case c0': True
      with True ready have "currentMatrix s = Addr_modelview"
        by (simp add: push_ready_def)
      moreover have "s4 = s3\<lparr>currentMatrix := Addr_modelview, transformRequired := False\<rparr>"
        using c0' True s2 s1 by (simp add: s4_def)
      moreover have "modelview s3 = modelview s"
        using t by (simp add: s3_def)
      ultimately show ?thesis
        by (simp add: get_current_def)
    next
      case False
      with True ready have "currentMatrix s = Addr_transform"
        by (simp add: push_ready_def)
      moreover have "s4 = s3" using False s2 by (simp add: s4_def)
      ultimately show ?thesis using g3 v1 True
        by (simp add: get_current_def)
    qed
  next
    case False
    then have "s4 = s3" using s2 s1 by (simp add: s4_def)
    then show ?thesis using g3 v1 False by simp
  qed
  moreover have "stackCounter s4 = ?c"
    using s2(2) by (simp add: s4_def s3_def)
  ultimately show ?thesis using run by blast
qed

text \<open>
  The theorem at the start state in mode \<^verbatim>\<open>RL_MODELVIEW\<close>, with a nested push and pop and
  an update in between.
\<close>

theorem balanced_push_pop_restores_witness:
  "balanced [Update (\<lambda>_. translated), Push, Pop]
   \<and> push_ready (rlMatrixMode RL_MODELVIEW start_state)
   \<and> visible (run_stack (Push # [Update (\<lambda>_. translated), Push, Pop] @ [Pop])
                (rlMatrixMode RL_MODELVIEW start_state)) = Some MatrixIdentity"
  using balanced_push_pop_restores
          [of "[Update (\<lambda>_. translated), Push, Pop]" "rlMatrixMode RL_MODELVIEW start_state"]
  by (auto simp: visible_def rlMatrixMode_def start_state_def push_ready_def get_current_def)

text \<open>
  Claim C6 as stated fails without the condition on \<^verbatim>\<open>currentMatrix\<close>. After
  \<^verbatim>\<open>rlMatrixMode(RL_PROJECTION); rlPushMatrix(); rlMatrixMode(RL_MODELVIEW)\<close> and a
  translation, the counter is 1 and \<^verbatim>\<open>currentMatrix\<close> points to the translated modelview
  matrix. \<^verbatim>\<open>rlPushMatrix\<close> redirects the pointer to the transform matrix, and
  \<^verbatim>\<open>rlPopMatrix\<close> redirects it back only when the counter reaches 0: after the pop the
  transform matrix (the identity) is seen, not the translated matrix.
\<close>

lemma nested_modelview_state_reachable:
  "run_stack setup_calls start_state = Inr nested_modelview_state"
  by (simp add: setup_calls_def nested_modelview_state_def start_state_def rlMatrixMode_def
      rlPushMatrix_def rlUpdateCurrent_def get_current_def set_current_def Let_def
      replicate_update_same)

theorem push_pop_modelview_counterexample:
  "balanced [] \<and> within_capacity (stackCounter nested_modelview_state) (Push # [] @ [Pop])
   \<and> get_current nested_modelview_state = translated
   \<and> visible (run_stack (Push # [] @ [Pop]) nested_modelview_state) = Some MatrixIdentity
   \<and> translated \<noteq> MatrixIdentity"
  by (simp add: nested_modelview_state_def start_state_def visible_def rlPushMatrix_def
      rlPopMatrix_def get_current_def set_current_def Let_def translated_def MatrixIdentity_def)

lemma push_start_state:
  assumes "0 \<le> k" "k < MAX_MATRIX_STACK_SIZE"
  shows "rlPushMatrix (start_state\<lparr>stackCounter := k\<rparr>) = Inr (start_state\<lparr>stackCounter := k + 1\<rparr>)"
  using assms
  by (simp add: rlPushMatrix_ok) (simp add: start_state_def get_current_def replicate_update_same)

lemma pushes_start_state:
  assumes "0 \<le> k" "k + int n \<le> MAX_MATRIX_STACK_SIZE"
  shows "run_stack (replicate n Push) (start_state\<lparr>stackCounter := k\<rparr>)
           = Inr (start_state\<lparr>stackCounter := k + int n\<rparr>)"
  using assms
proof (induction n arbitrary: k)
  case 0
  then show ?case by simp
next
  case (Suc n)
  from Suc.prems have "rlPushMatrix (start_state\<lparr>stackCounter := k\<rparr>) = Inr (start_state\<lparr>stackCounter := k + 1\<rparr>)"
    by (intro push_start_state) auto
  moreover have "run_stack (replicate n Push) (start_state\<lparr>stackCounter := k + 1\<rparr>)
           = Inr (start_state\<lparr>stackCounter := k + 1 + int n\<rparr>)"
    using Suc.prems by (intro Suc.IH) auto
  ultimately show ?case by (simp add: add.assoc add.commute)
qed

lemma full_stack_state_reachable:
  "run_stack (replicate 32 Push) start_state = Inr full_stack_state"
  using pushes_start_state [of 0 32] by (simp add: full_stack_state_def start_state_def)

text \<open>
  Claim C3 against the code. With the counter at \<^verbatim>\<open>MAX_MATRIX_STACK_SIZE\<close> (32 pushes
  after the start) \<^verbatim>\<open>rlPushMatrix\<close> logs the overflow and goes on to the assignment
  \<^verbatim>\<open>RLGL.State.stack[32] = *RLGL.State.currentMatrix\<close>, one element past the array: the
  push is not rejected.
\<close>

theorem rlPushMatrix_at_capacity:
  "stackCounter full_stack_state = MAX_MATRIX_STACK_SIZE
   \<and> rlPushMatrix full_stack_state =
       Inl (StackIndexOutOfBounds 32,
            TRACELOG LOG_ERROR ''RLGL: Matrix stack overflow (MAX_MATRIX_STACK_SIZE)'' full_stack_state)"
  by (simp add: full_stack_state_def start_state_def rlPushMatrix_def TRACELOG_def Let_def)

section \<open>The texture registry\<close>

text \<open>
  Claim C4 against the code. When the root node's id is not 1, \<^verbatim>\<open>rlNewPica200Tex\<close> still
  starts its search at id 2 behind the root: after two allocations (ids 1 and 2) and the
  removal of id 1, the next allocation returns 2 again, not the free id 1, and two live
  nodes hold the id 2.
\<close>

theorem rlNewPica200Tex_duplicates_id:
  "fst (run_registry [Allocate, Allocate, Remove 1, Allocate] start_state) = [1, 2, 2]
   \<and> live_ids (snd (run_registry [Allocate, Allocate, Remove 1] start_state)) = [2]
   \<and> live_ids (snd (run_registry [Allocate, Allocate, Remove 1, Allocate] start_state)) = [2, 2]"
  by (simp add: start_state_def rlNewPica200Tex_def rlRemovePica200Tex_def new_node_def live_ids_def)

text \<open>
  The example of the specification returns the ids it names: 1, 2, 3, then the removal of
  2, then 2 again. The registry does not hold what the example suggests afterwards: the
  node allocated in the gap replaces the node behind the gap, so the live ids are 1 and 2,
  and the node with id 3 is lost. Removing a node that is not next to the root unlinks
  every node in between.
\<close>

lemma registry_example:
  "fst (run_registry [Allocate, Allocate, Allocate, Remove 2, Allocate] start_state) = [1, 2, 3, 2]
   \<and> live_ids (snd (run_registry [Allocate, Allocate, Allocate, Remove 2] start_state)) = [1, 3]
   \<and> live_ids (snd (run_registry [Allocate, Allocate, Allocate, Remove 2, Allocate] start_state)) = [1, 2]"
  by (simp add: start_state_def rlNewPica200Tex_def rlRemovePica200Tex_def new_node_def live_ids_def)

lemma rlRemovePica200Tex_drops_nodes:
  "live_ids (snd (run_registry [Allocate, Allocate, Allocate, Remove 3] start_state)) = [1]"
  by (simp add: start_state_def rlNewPica200Tex_def rlRemovePica200Tex_def new_node_def live_ids_def)

text \<open>
  Claim C5 against the code. \<^verbatim>\<open>rlLoadTexture\<close> allocates the registry node before the
  driver checks the size. With width 10 it returns 0, and the node with id 1 stays in the
  registry, without a texture.
\<close>

theorem rlLoadTexture_bad_size_keeps_node:
  "rootTex start_state = []
   \<and> rlLoadTexture (replicate 80 0) 10 8 PIXELFORMAT_UNCOMPRESSED_GRAYSCALE 1 True [] start_state =
       Inr (0, TRACELOG LOG_WARNING ''TEXTURE: Failed to load texture (invalid size): %d %d''
                 (start_state\<lparr>rootTex := [\<lparr>node_id = 1, node_tex = None\<rparr>]\<rparr>))"
  by (simp add: rlLoadTexture_def rlNewPica200Tex_def start_state_def new_node_def C3D_TexInit_def
      checkTexSize_def TRACELOG_def)

text \<open>An unsupported format is rejected before any node is allocated.\<close>

lemma rlLoadTexture_bad_format:
  "rlLoadTexture data width height PIXELFORMAT_UNCOMPRESSED_R32 mipmapCount alloc_ok uninit s =
     Inr (0, TRACELOG LOG_WARNING ''TEXTURE: Failed to load texture''
               (TRACELOG LOG_WARNING ''TEXTURE: Current format not supported (%i)'' s))"
  by (simp add: rlLoadTexture_def)

section \<open>The attribute cache\<close>

lemma length_clear_flags [simp]: "length (clear_flags n u) = length u"
  unfolding clear_flags_def by (induction n) simp_all

lemma send_loop:
  "fold (\<lambda>i t. t\<lparr>gpu := gpu t @ [C3D_ImmSendAttrib (vx (a ! i)) (vy (a ! i)) (vz (a ! i)) (vw (a ! i))],
                    paramsUsed := (paramsUsed t)[i := False]\<rparr>) js s
   = s\<lparr>gpu := gpu s @ map (\<lambda>i. send_of (a ! i)) js,
        paramsUsed := fold (\<lambda>i u. u[i := False]) js (paramsUsed s)\<rparr>"
  by (induction js arbitrary: s) (simp_all add: send_of_def)

lemma map_nth_upt_take: "n \<le> length a \<Longrightarrow> map (\<lambda>i. f (a ! i)) [0..<n] = map f (take n a)"
  by (rule nth_equalityI) simp_all

lemma rlSendAttr_eq:
  assumes "nat (shaderNumParams s) \<le> length a"
  shows "rlSendAttr a s =
     s\<lparr>gpu := gpu s @ map send_of (take (nat (shaderNumParams s)) a),
       paramsUsed := clear_flags (nat (shaderNumParams s)) (paramsUsed s)\<rparr>"
  unfolding rlSendAttr_def send_loop clear_flags_def
  by (simp add: map_nth_upt_take [OF assms])

lemma rlBackupParams_eq:
  assumes "length (lastParams s) = SHD_MAX_PARAMS" "length (backupParams s) = SHD_MAX_PARAMS"
  shows "rlBackupParams s = s\<lparr>backupParams := lastParams s\<rparr>"
proof -
  have "fold (\<lambda>i b. b[i := Vector4 (vx (lastParams s ! i)) (vy (lastParams s ! i))
                                    (vz (lastParams s ! i)) (vw (lastParams s ! i))])
              [0..<SHD_MAX_PARAMS] (backupParams s) = lastParams s"
    using assms
    by (intro nth_equalityI) (auto simp: eval_nat_numeral nth_list_update less_Suc_eq)
  then show ?thesis by (simp add: rlBackupParams_def)
qed

lemma rlPicaAttrFlush_frame:
  assumes "shaderNumParams s \<le> int SHD_MAX_PARAMS" and "arrays_ok s"
  shows "lastParams (rlPicaAttrFlush s) = lastParams s"
    and "shaderNumParams (rlPicaAttrFlush s) = shaderNumParams s"
    and "paramMode (rlPicaAttrFlush s) = paramMode s"
    and "currentDepth (rlPicaAttrFlush s) = currentDepth s"
    and "arrays_ok (rlPicaAttrFlush s)"
proof -
  have n: "nat (shaderNumParams s) \<le> length (lastParams s)" "nat (shaderNumParams s) \<le> length (backupParams s)"
    using assms by (auto simp: arrays_ok_def)
  have b: "rlBackupParams s = s\<lparr>backupParams := lastParams s\<rparr>"
    using assms by (intro rlBackupParams_eq) (auto simp: arrays_ok_def)
  show "lastParams (rlPicaAttrFlush s) = lastParams s"
    and "shaderNumParams (rlPicaAttrFlush s) = shaderNumParams s"
    and "paramMode (rlPicaAttrFlush s) = paramMode s"
    and "currentDepth (rlPicaAttrFlush s) = currentDepth s"
    and "arrays_ok (rlPicaAttrFlush s)"
    using n assms(2)
    by (simp_all add: rlPicaAttrFlush_def Let_def rlSendAttr_eq b arrays_ok_def clear_flags_def [symmetric])
qed

lemma flush_keeps:
  assumes "cache_ok s"
  shows "cache_ok (rlPicaAttrFlush s)"
    and "lastParams (rlPicaAttrFlush s) = lastParams s"
    and "currentDepth (rlPicaAttrFlush s) = currentDepth s"
    and "paramMode (rlPicaAttrFlush s) = paramMode s"
    and "shaderNumParams (rlPicaAttrFlush s) = shaderNumParams s"
  using assms rlPicaAttrFlush_frame [of s] by (simp_all add: cache_ok_def)

lemma maybe_flush_keeps:
  assumes "cache_ok s"
  shows "cache_ok (if c then rlPicaAttrFlush s else s)"
    and "lastParams (if c then rlPicaAttrFlush s else s) = lastParams s"
    and "currentDepth (if c then rlPicaAttrFlush s else s) = currentDepth s"
    and "paramMode (if c then rlPicaAttrFlush s else s) = paramMode s"
    and "shaderNumParams (if c then rlPicaAttrFlush s else s) = shaderNumParams s"
  using flush_keeps [OF assms] assms by simp_all

lemma cache_ok_upd:
  "cache_ok s \<Longrightarrow> cache_ok (s\<lparr>lastParams := (lastParams s)[i := v], paramsUsed := (paramsUsed s)[j := b]\<rparr>)"
  by (simp add: cache_ok_def arrays_ok_def)

lemma attr_step_keeps:
  assumes "cache_ok s"
  shows "cache_ok (attr_step c s)"
    and "currentDepth (attr_step c s) = currentDepth s"
    and "paramMode (attr_step c s) = paramMode s"
    and "shaderNumParams (attr_step c s) = shaderNumParams s"
    and "lastParams (attr_step c s) ! SHD_TEXCOORD = last_texcoord (lastParams s ! SHD_TEXCOORD) [c]"
    and "lastParams (attr_step c s) ! SHD_COLOR = last_color (lastParams s ! SHD_COLOR) [c]"
proof -
  note a = assms [unfolded cache_ok_def arrays_ok_def]
  note f = flush_keeps(1) [OF assms, unfolded cache_ok_def arrays_ok_def] flush_keeps(2-) [OF assms]
  note defs = rlVertex2i_def rlVertex2f_def rlVertex3f_def rlTexCoord2f_def rlNormal3f_def
        rlColor4ub_def rlColor3f_def rlColor4f_def Let_def cache_ok_def arrays_ok_def
  show "cache_ok (attr_step c s)"
    using a f by (cases c) (simp_all add: defs)
  show "currentDepth (attr_step c s) = currentDepth s"
    using a f by (cases c) (simp_all add: defs)
  show "paramMode (attr_step c s) = paramMode s"
    using a f by (cases c) (simp_all add: defs)
  show "shaderNumParams (attr_step c s) = shaderNumParams s"
    using a f by (cases c) (simp_all add: defs)
  show "lastParams (attr_step c s) ! SHD_TEXCOORD = last_texcoord (lastParams s ! SHD_TEXCOORD) [c]"
    using a f by (cases c) (simp_all add: defs)
  show "lastParams (attr_step c s) ! SHD_COLOR = last_color (lastParams s ! SHD_COLOR) [c]"
    using a f by (cases c) (simp_all add: defs)
qed

lemma last_texcoord_step: "last_texcoord v (c # cs) = last_texcoord (last_texcoord v [c]) cs"
  by (cases c) simp_all

lemma last_color_step: "last_color v (c # cs) = last_color (last_color v [c]) cs"
  by (cases c) simp_all

lemma run_attrs_keeps:
  assumes "cache_ok s"
  shows "cache_ok (run_attrs cs s)
    \<and> currentDepth (run_attrs cs s) = currentDepth s
    \<and> paramMode (run_attrs cs s) = paramMode s
    \<and> shaderNumParams (run_attrs cs s) = shaderNumParams s
    \<and> lastParams (run_attrs cs s) ! SHD_TEXCOORD = last_texcoord (lastParams s ! SHD_TEXCOORD) cs
    \<and> lastParams (run_attrs cs s) ! SHD_COLOR = last_color (lastParams s ! SHD_COLOR) cs"
  using assms
proof (induction cs arbitrary: s)
  case Nil
  then show ?case by simp
next
  case (Cons c cs)
  note st = attr_step_keeps [OF Cons.prems, of c]
  from Cons.IH [OF st(1)] st show ?case
    using last_texcoord_step [of _ c cs] last_color_step [of _ c cs] by simp
qed

lemma rlBegin_keeps:
  assumes "cache_ok s"
  shows "cache_ok (rlBegin mode s)"
    and "currentDepth (rlBegin mode s) = currentDepth s"
    and "paramMode (rlBegin mode s) = mode"
    and "shaderNumParams (rlBegin mode s) = shaderNumParams s"
    and "lastParams (rlBegin mode s) = [Vector4 0 0 0 0, Vector4 0 0 0 0, Vector4 1 1 1 1, Vector4 0 0 1 0]"
proof -
  have len: "length (lastParams s) = 4" using assms by (simp add: cache_ok_def arrays_ok_def)
  then obtain a b c d where l: "lastParams s = [a, b, c, d]"
    by (auto simp: length_Suc_conv eval_nat_numeral)
  show "cache_ok (rlBegin mode s)"
    using assms by (simp add: rlBegin_def Let_def cache_ok_def arrays_ok_def clear_flags_def [symmetric])
  show "currentDepth (rlBegin mode s) = currentDepth s"
    and "paramMode (rlBegin mode s) = mode"
    and "shaderNumParams (rlBegin mode s) = shaderNumParams s"
    by (simp_all add: rlBegin_def Let_def)
  show "lastParams (rlBegin mode s) = [Vector4 0 0 0 0, Vector4 0 0 0 0, Vector4 1 1 1 1, Vector4 0 0 1 0]"
    using l by (simp add: rlBegin_def Let_def eval_nat_numeral)
qed

lemma quad_state_fields:
  "paramMode quad_state = RL_QUADS" "paramNum quad_state = 3" "shaderNumParams quad_state = 3"
  "lastParams quad_state = [Vector4 0 10 0 0, Vector4 0 0 0 0, Vector4 1 1 0 1, Vector4 0 0 1 0]"
  "backupParams quad_state = [Vector4 10 10 0 0, Vector4 0 0 0 0, Vector4 0 0 1 1, Vector4 0 0 1 0]"
  "sent (gpu quad_state) =
     [Vector4 0 0 0 0, Vector4 0 0 0 0, Vector4 1 0 0 1,
      Vector4 10 0 0 0, Vector4 0 0 0 0, Vector4 0 1 0 1]"
  by (simp_all add: quad_state_def quad_calls_def rlBegin_def start_state_def rlVertex2f_def
      rlColor4f_def rlPicaAttrFlush_def rlSendAttr_def rlBackupParams_def c_rem_def Let_def
      eval_nat_numeral)

lemma quad_state_ok: "cache_ok quad_state"
  unfolding quad_state_def
  using run_attrs_keeps [OF rlBegin_keeps(1) [OF start_state_ok(2)]] by blast

lemma quad_bracket_trace:
  "sent (gpu (rlEnd dec quad_state)) =
     [Vector4 0 0 0 0, Vector4 0 0 0 0, Vector4 1 0 0 1,
      Vector4 10 0 0 0, Vector4 0 0 0 0, Vector4 0 1 0 1,
      Vector4 0 10 0 0, Vector4 0 0 0 0, Vector4 1 1 0 1,
      Vector4 10 10 0 0, Vector4 0 0 0 0, Vector4 0 0 1 1]"
  by (simp add: quad_state_def quad_calls_def rlBegin_def start_state_def rlVertex2f_def
      rlColor4f_def rlPicaAttrFlush_def rlSendAttr_def rlBackupParams_def c_rem_def Let_def
      eval_nat_numeral rlEnd_def)

lemma line_state_fields:
  "paramMode line_state = RL_LINES" "paramNum line_state = 0" "shaderNumParams line_state = 3"
  "paramsUsed line_state = [True, False, True, False]"
  "lastParams line_state = [Vector4 3 4 0 0, Vector4 0 0 0 0, Vector4 1 0 0 1, Vector4 0 0 1 0]"
  by (simp_all add: line_state_def rlBegin_def start_state_def rlVertex2f_def
      rlColor4f_def Let_def eval_nat_numeral)

text \<open>
  Claim C1, as amended. For a quad in phase 3 (\<^verbatim>\<open>paramNum == 3\<close>) the flush sends exactly
  two attribute sets, each of the first \<^verbatim>\<open>shaderNumParams\<close> slots: first the current set
  (\<^verbatim>\<open>lastParams\<close>), then the set saved in phase 2 (\<^verbatim>\<open>backupParams\<close>). The phase
  returns to 0 and both sets are unchanged.
\<close>

theorem quads_phase3_sends_current_then_backup:
  assumes "paramMode s = RL_QUADS" and "paramNum s = 3" and "cache_ok s"
  shows "gpu (rlPicaAttrFlush s) =
           gpu s @ map send_of (take (nat (shaderNumParams s)) (lastParams s))
                 @ map send_of (take (nat (shaderNumParams s)) (backupParams s))
         \<and> paramNum (rlPicaAttrFlush s) = 0
         \<and> lastParams (rlPicaAttrFlush s) = lastParams s
         \<and> backupParams (rlPicaAttrFlush s) = backupParams s"
proof -
  have n: "nat (shaderNumParams s) \<le> length (lastParams s)" "nat (shaderNumParams s) \<le> length (backupParams s)"
    using assms by (auto simp: cache_ok_def arrays_ok_def)
  show ?thesis
    using assms(1,2) n
    by (simp add: rlPicaAttrFlush_def Let_def rlSendAttr_eq c_rem_def)
qed

text \<open>The theorem at the quad of \<open>quad_calls\<close>, before \<^verbatim>\<open>rlEnd\<close>.\<close>

theorem quads_phase3_sends_current_then_backup_witness:
  "paramMode quad_state = RL_QUADS \<and> paramNum quad_state = 3 \<and> cache_ok quad_state
   \<and> gpu (rlPicaAttrFlush quad_state) =
       gpu quad_state @ map send_of (take 3 (lastParams quad_state))
                      @ map send_of (take 3 (backupParams quad_state))
   \<and> paramNum (rlPicaAttrFlush quad_state) = 0"
  using quads_phase3_sends_current_then_backup [of quad_state] quad_state_ok
  by (simp add: quad_state_fields(1-3))

text \<open>
  Claim C1 as stated has the two sets in the other order. In \<open>quad_state\<close> the current set
  is the fourth vertex (0, 10) and the backup is the third (10, 10); the flush sends the
  fourth vertex first.
\<close>

theorem quads_phase3_backup_first_counterexample:
  "paramMode quad_state = RL_QUADS \<and> paramNum quad_state = 3
   \<and> lastParams quad_state = [Vector4 0 10 0 0, Vector4 0 0 0 0, Vector4 1 1 0 1, Vector4 0 0 1 0]
   \<and> backupParams quad_state = [Vector4 10 10 0 0, Vector4 0 0 0 0, Vector4 0 0 1 1, Vector4 0 0 1 0]
   \<and> gpu (rlPicaAttrFlush quad_state) =
       gpu quad_state @
         [C3D_ImmSendAttrib 0 10 0 0, C3D_ImmSendAttrib 0 0 0 0, C3D_ImmSendAttrib 1 1 0 1,
          C3D_ImmSendAttrib 10 10 0 0, C3D_ImmSendAttrib 0 0 0 0, C3D_ImmSendAttrib 0 0 1 1]
   \<and> gpu (rlPicaAttrFlush quad_state) \<noteq>
       gpu quad_state @ map send_of (take 3 (backupParams quad_state))
                      @ map send_of (take 3 (lastParams quad_state))"
  by (simp add: quad_state_fields rlPicaAttrFlush_def rlSendAttr_def Let_def send_of_def
      eval_nat_numeral)

text \<open>
  For a line (\<^verbatim>\<open>paramMode == RL_LINES\<close>) a flush toggles the phase between 0 and 1 and
  does nothing else.
\<close>

lemma rlPicaAttrFlush_lines:
  assumes "paramMode s = RL_LINES"
  shows "rlPicaAttrFlush s = s\<lparr>paramNum := (if paramNum s = 0 then 1 else 0)\<rparr>"
  using assms by (simp add: rlPicaAttrFlush_def)

text \<open>
  Claim C2 against the code. In \<open>line_state\<close>, after \<^verbatim>\<open>rlBegin(RL_LINES)\<close>, a position
  and a colour, both are pending. The flush toggles the phase from 0 to 1, but it sends
  nothing: the trace stays as it is, where the claim has the three attributes of the
  current set appended, and the position stays pending, where the claim has the flags
  cleared. The same cache with \<^verbatim>\<open>paramMode == RL_TRIANGLES\<close> is sent, as the comment above
  \<^verbatim>\<open>rlPicaAttrFlush\<close> says of every cached set.
\<close>

theorem lines_flush_sends_nothing:
  "paramMode line_state = RL_LINES
   \<and> paramsUsed line_state ! SHD_POSITION
   \<and> paramNum line_state = 0
   \<and> paramNum (rlPicaAttrFlush line_state) = 1
   \<and> gpu (rlPicaAttrFlush line_state) = gpu line_state
   \<and> gpu (rlPicaAttrFlush line_state) \<noteq>
        gpu line_state @ map send_of (take 3 (lastParams line_state))
   \<and> paramsUsed (rlPicaAttrFlush line_state) ! SHD_POSITION
   \<and> gpu (rlPicaAttrFlush (line_state\<lparr>paramMode := RL_TRIANGLES\<rparr>)) =
        gpu line_state @ map send_of (take 3 (lastParams line_state))
   \<and> \<not> paramsUsed (rlPicaAttrFlush (line_state\<lparr>paramMode := RL_TRIANGLES\<rparr>)) ! SHD_POSITION"
  by (simp add: line_state_fields rlPicaAttrFlush_def rlSendAttr_def send_of_def eval_nat_numeral)

lemma rlSendAttr_depth: "currentDepth (rlSendAttr a s) = currentDepth s"
  by (simp add: rlSendAttr_def send_loop)

lemma rlPicaAttrFlush_depth: "currentDepth (rlPicaAttrFlush s) = currentDepth s"
  by (simp add: rlPicaAttrFlush_def Let_def rlSendAttr_depth rlBackupParams_def)

text \<open>
  The three position setters differ only in the value they store: each runs the flush when
  a position is pending, then stores its value and marks the slot.
\<close>

lemma position_step:
  assumes "position_of (currentDepth s) p = Some v"
  shows "attr_step p s =
     (let t = (if paramsUsed s ! SHD_POSITION \<and> int SHD_POSITION < shaderNumParams s
               then rlPicaAttrFlush s else s)
      in t\<lparr>lastParams := (lastParams t)[SHD_POSITION := v],
            paramsUsed := (paramsUsed t)[SHD_POSITION := True]\<rparr>)"
  using assms
  by (cases p) (auto simp: rlVertex2i_def rlVertex2f_def rlVertex3f_def Let_def rlPicaAttrFlush_depth)

text \<open>What a flush sends, by primitive and phase, lines apart.\<close>

lemma flush_by_mode:
  assumes "cache_ok s"
  shows "paramMode s \<noteq> RL_LINES \<Longrightarrow> paramMode s \<noteq> RL_QUADS \<Longrightarrow>
           gpu (rlPicaAttrFlush s) = gpu s @ map send_of (take (nat (shaderNumParams s)) (lastParams s))"
    and "paramMode s = RL_QUADS \<Longrightarrow> paramNum s \<noteq> 2 \<Longrightarrow> paramNum s \<noteq> 3 \<Longrightarrow>
           gpu (rlPicaAttrFlush s) = gpu s @ map send_of (take (nat (shaderNumParams s)) (lastParams s))
           \<and> backupParams (rlPicaAttrFlush s) = backupParams s"
    and "paramMode s = RL_QUADS \<Longrightarrow> paramNum s = 2 \<Longrightarrow>
           gpu (rlPicaAttrFlush s) = gpu s \<and> backupParams (rlPicaAttrFlush s) = lastParams s
           \<and> paramNum (rlPicaAttrFlush s) = 3"
    and "paramMode s = RL_QUADS \<Longrightarrow> paramNum s = 3 \<Longrightarrow>
           gpu (rlPicaAttrFlush s) =
             gpu s @ map send_of (take (nat (shaderNumParams s)) (lastParams s))
                   @ map send_of (take (nat (shaderNumParams s)) (backupParams s))
           \<and> backupParams (rlPicaAttrFlush s) = backupParams s
           \<and> paramNum (rlPicaAttrFlush s) = 0"
proof -
  have n: "nat (shaderNumParams s) \<le> length (lastParams s)" "nat (shaderNumParams s) \<le> length (backupParams s)"
    using assms by (auto simp: cache_ok_def arrays_ok_def)
  have b: "rlBackupParams s = s\<lparr>backupParams := lastParams s\<rparr>"
    using assms by (intro rlBackupParams_eq) (auto simp: cache_ok_def arrays_ok_def)
  show "paramMode s \<noteq> RL_LINES \<Longrightarrow> paramMode s \<noteq> RL_QUADS \<Longrightarrow>
           gpu (rlPicaAttrFlush s) = gpu s @ map send_of (take (nat (shaderNumParams s)) (lastParams s))"
    using n by (simp add: rlPicaAttrFlush_def rlSendAttr_eq)
  show "paramMode s = RL_QUADS \<Longrightarrow> paramNum s \<noteq> 2 \<Longrightarrow> paramNum s \<noteq> 3 \<Longrightarrow>
           gpu (rlPicaAttrFlush s) = gpu s @ map send_of (take (nat (shaderNumParams s)) (lastParams s))
           \<and> backupParams (rlPicaAttrFlush s) = backupParams s"
    using n by (simp add: rlPicaAttrFlush_def Let_def rlSendAttr_eq)
  show "paramMode s = RL_QUADS \<Longrightarrow> paramNum s = 2 \<Longrightarrow>
           gpu (rlPicaAttrFlush s) = gpu s \<and> backupParams (rlPicaAttrFlush s) = lastParams s
           \<and> paramNum (rlPicaAttrFlush s) = 3"
    by (simp add: rlPicaAttrFlush_def Let_def b c_rem_def)
  show "paramMode s = RL_QUADS \<Longrightarrow> paramNum s = 3 \<Longrightarrow>
           gpu (rlPicaAttrFlush s) =
             gpu s @ map send_of (take (nat (shaderNumParams s)) (lastParams s))
                   @ map send_of (take (nat (shaderNumParams s)) (backupParams s))
           \<and> backupParams (rlPicaAttrFlush s) = backupParams s
           \<and> paramNum (rlPicaAttrFlush s) = 0"
    using n by (simp add: rlPicaAttrFlush_def Let_def rlSendAttr_eq c_rem_def)
qed

lemma quad_positions_state_fields:
  "paramMode quad_positions_state = RL_QUADS" "paramNum quad_positions_state = 2"
  "shaderNumParams quad_positions_state = 3"
  "paramsUsed quad_positions_state = [True, False, False, False]"
  "lastParams quad_positions_state = [Vector4 3 3 0 0, Vector4 0 0 0 0, Vector4 1 1 1 1, Vector4 0 0 1 0]"
  "sent (gpu quad_positions_state) =
     [Vector4 1 1 0 0, Vector4 0 0 0 0, Vector4 1 1 1 1,
      Vector4 2 2 0 0, Vector4 0 0 0 0, Vector4 1 1 1 1]"
  by (simp_all add: quad_positions_state_def rlBegin_def start_state_def rlVertex2f_def
      rlPicaAttrFlush_def rlSendAttr_def rlBackupParams_def c_rem_def Let_def eval_nat_numeral)

text \<open>
  Claim C8, as amended. Between \<^verbatim>\<open>rlBegin\<close> and \<^verbatim>\<open>rlEnd\<close>, with at least one shader
  attribute, after any setter calls \<open>pre\<close>, two position calls \<open>p1\<close> and \<open>p2\<close> in a row
  (each of \<^verbatim>\<open>rlVertex2i\<close>, \<^verbatim>\<open>rlVertex2f\<close>, \<^verbatim>\<open>rlVertex3f\<close>): the second call runs
  \<^verbatim>\<open>rlPicaAttrFlush\<close> once, on the state the first call left, and only then stores its
  own position. At that flush the position slot holds the first position, the texture
  coordinate and colour slots hold the values last set in \<open>pre\<close>, or (0,0,0,0) and
  (1,1,1,1) from \<^verbatim>\<open>rlBegin\<close>, and the flush does not change the slots. What reaches the
  driver depends on the primitive. For triangles, and any mode other than lines and quads,
  and for a quad in a phase other than 2 and 3, exactly this set is sent. For a quad in
  phase 2 nothing is sent and the set is saved in \<^verbatim>\<open>backupParams\<close>. For a quad in phase
  3 two sets are sent, this set and then the saved one. Nothing is said of lines.
\<close>

theorem position_twice_flush_by_mode:
  assumes c0: "cache_ok s0"
    and pos: "int SHD_POSITION < shaderNumParams s0"
    and p1: "position_of (currentDepth s0) p1 = Some v1"
    and p2: "position_of (currentDepth s0) p2 = Some v2"
  shows
   "(let s = run_attrs pre (rlBegin mode s0);
         s1 = attr_step p1 s;
         flushed = rlPicaAttrFlush s1;
         s2 = attr_step p2 s1;
         current = map send_of (take (nat (shaderNumParams s0)) (lastParams flushed));
         saved = map send_of (take (nat (shaderNumParams s0)) (backupParams s1))
     in s2 = flushed\<lparr>lastParams := (lastParams flushed)[SHD_POSITION := v2],
                      paramsUsed := (paramsUsed flushed)[SHD_POSITION := True]\<rparr>
        \<and> lastParams flushed = lastParams s1
        \<and> lastParams flushed ! SHD_POSITION = v1
        \<and> lastParams flushed ! SHD_TEXCOORD = last_texcoord (Vector4 0 0 0 0) pre
        \<and> lastParams flushed ! SHD_COLOR = last_color (Vector4 1 1 1 1) pre
        \<and> (mode \<noteq> RL_LINES \<and> mode \<noteq> RL_QUADS \<longrightarrow> gpu s2 = gpu s1 @ current)
        \<and> (mode = RL_QUADS \<and> paramNum s1 \<noteq> 2 \<and> paramNum s1 \<noteq> 3 \<longrightarrow>
             gpu s2 = gpu s1 @ current \<and> backupParams s2 = backupParams s1)
        \<and> (mode = RL_QUADS \<and> paramNum s1 = 2 \<longrightarrow>
             gpu s2 = gpu s1 \<and> backupParams s2 = lastParams s1 \<and> paramNum s2 = 3)
        \<and> (mode = RL_QUADS \<and> paramNum s1 = 3 \<longrightarrow>
             gpu s2 = gpu s1 @ current @ saved \<and> backupParams s2 = backupParams s1
             \<and> paramNum s2 = 0))"
proof -
  define s where "s = run_attrs pre (rlBegin mode s0)"
  define s1 where "s1 = attr_step p1 s"
  define flushed where "flushed = rlPicaAttrFlush s1"
  define s2 where "s2 = attr_step p2 s1"
  note b = rlBegin_keeps [OF c0, of mode]
  from run_attrs_keeps [OF b(1), of pre] b
  have s: "cache_ok s" "currentDepth s = currentDepth s0" "paramMode s = mode"
    "shaderNumParams s = shaderNumParams s0"
    "lastParams s ! SHD_TEXCOORD = last_texcoord (Vector4 0 0 0 0) pre"
    "lastParams s ! SHD_COLOR = last_color (Vector4 1 1 1 1) pre"
    by (simp_all add: s_def)
  define t where "t = (if paramsUsed s ! SHD_POSITION \<and> int SHD_POSITION < shaderNumParams s
                then rlPicaAttrFlush s else s)"
  note t = maybe_flush_keeps [OF s(1), of "paramsUsed s ! SHD_POSITION \<and> int SHD_POSITION < shaderNumParams s",
      folded t_def]
  have s1_eq: "s1 = t\<lparr>lastParams := (lastParams t)[SHD_POSITION := v1],
             paramsUsed := (paramsUsed t)[SHD_POSITION := True]\<rparr>"
    using position_step [of s p1 v1] p1 s(2) by (simp add: s1_def Let_def t_def)
  have lent: "length (lastParams t) = 4" "length (paramsUsed t) = 4"
    using t(1) by (simp_all add: cache_ok_def arrays_ok_def)
  have s1: "cache_ok s1" "currentDepth s1 = currentDepth s0" "paramMode s1 = mode"
    "shaderNumParams s1 = shaderNumParams s0" "paramsUsed s1 ! SHD_POSITION"
    "lastParams s1 ! SHD_POSITION = v1"
    "lastParams s1 ! SHD_TEXCOORD = last_texcoord (Vector4 0 0 0 0) pre"
    "lastParams s1 ! SHD_COLOR = last_color (Vector4 1 1 1 1) pre"
    using t s lent cache_ok_upd [OF t(1)] by (simp_all add: s1_eq)
  note f = flush_keeps [OF s1(1), folded flushed_def]
  have s2_eq: "s2 = flushed\<lparr>lastParams := (lastParams flushed)[SHD_POSITION := v2],
                      paramsUsed := (paramsUsed flushed)[SHD_POSITION := True]\<rparr>"
    using position_step [of s1 p2 v2] p2 s1 pos by (simp add: s2_def Let_def flushed_def)
  have s2: "gpu s2 = gpu flushed" "backupParams s2 = backupParams flushed"
    "paramNum s2 = paramNum flushed"
    by (simp_all add: s2_eq)
  note m = flush_by_mode [OF s1(1), folded flushed_def, unfolded s1(3) s1(4)]
  show ?thesis
    unfolding Let_def s_def [symmetric] s1_def [symmetric] flushed_def [symmetric] s2_def [symmetric]
    using s2_eq f(2) s1 s2 m by simp
qed

text \<open>
  The theorem for a triangle after a colour and a texture coordinate, and for a quad
  given by positions only: the first two positions (phase 0), the third and the fourth
  (phase 2), the fourth and the fifth (phase 3).
\<close>

theorem position_twice_flush_by_mode_witness:
  "cache_ok start_state \<and> int SHD_POSITION < shaderNumParams start_state
   \<and> position_of (currentDepth start_state) (Vertex2i 3 4) = Some (Vector4 3 4 0 0)
   \<and> position_of (currentDepth start_state) (Vertex3f 5 6 7) = Some (Vector4 5 6 7 0)
   \<and> position_of (currentDepth start_state) (Vertex2f 1 1) = Some (Vector4 1 1 0 0)
   \<and> position_of (currentDepth start_state) (Vertex2f 2 2) = Some (Vector4 2 2 0 0)
   \<and> position_of (currentDepth start_state) (Vertex2f 3 3) = Some (Vector4 3 3 0 0)
   \<and> position_of (currentDepth start_state) (Vertex2f 4 4) = Some (Vector4 4 4 0 0)
   \<and> position_of (currentDepth start_state) (Vertex2f 5 5) = Some (Vector4 5 5 0 0)
   \<and> (let s = run_attrs [Color4ub 1 0 0 1, TexCoord2f 1 1] (rlBegin RL_TRIANGLES start_state);
          s1 = attr_step (Vertex2i 3 4) s;
          flushed = rlPicaAttrFlush s1;
          s2 = attr_step (Vertex3f 5 6 7) s1
      in lastParams flushed ! SHD_POSITION = Vector4 3 4 0 0
       \<and> lastParams flushed ! SHD_TEXCOORD = Vector4 1 1 0 0
       \<and> lastParams flushed ! SHD_COLOR = Vector4 1 0 0 1
       \<and> gpu s2 = gpu s1 @ map send_of (take 3 (lastParams flushed)))
   \<and> (let s1 = attr_step (Vertex2f 1 1) (rlBegin RL_QUADS start_state);
          flushed = rlPicaAttrFlush s1;
          s2 = attr_step (Vertex2f 2 2) s1
      in paramNum s1 = 0
       \<and> lastParams flushed ! SHD_POSITION = Vector4 1 1 0 0
       \<and> gpu s2 = gpu s1 @ map send_of (take 3 (lastParams flushed)))
   \<and> (let s1 = quad_positions_state;
          s2 = attr_step (Vertex2f 4 4) s1
      in paramNum s1 = 2
       \<and> gpu s2 = gpu s1 \<and> backupParams s2 = lastParams s1 \<and> paramNum s2 = 3)
   \<and> (let s1 = attr_step (Vertex2f 4 4) quad_positions_state;
          flushed = rlPicaAttrFlush s1;
          s2 = attr_step (Vertex2f 5 5) s1
      in paramNum s1 = 3
       \<and> lastParams flushed ! SHD_POSITION = Vector4 4 4 0 0
       \<and> gpu s2 = gpu s1 @ map send_of (take 3 (lastParams flushed))
                         @ map send_of (take 3 (backupParams s1))
       \<and> paramNum s2 = 0)"
proof -
  have h1: "cache_ok start_state"
    by (rule start_state_ok)
  have h2: "int SHD_POSITION < shaderNumParams start_state"
    by (simp add: start_state_fields)
  have p: "position_of (currentDepth start_state) (Vertex2i 3 4) = Some (Vector4 3 4 0 0)"
    "position_of (currentDepth start_state) (Vertex3f 5 6 7) = Some (Vector4 5 6 7 0)"
    "position_of (currentDepth start_state) (Vertex2f 1 1) = Some (Vector4 1 1 0 0)"
    "position_of (currentDepth start_state) (Vertex2f 2 2) = Some (Vector4 2 2 0 0)"
    "position_of (currentDepth start_state) (Vertex2f 3 3) = Some (Vector4 3 3 0 0)"
    "position_of (currentDepth start_state) (Vertex2f 4 4) = Some (Vector4 4 4 0 0)"
    "position_of (currentDepth start_state) (Vertex2f 5 5) = Some (Vector4 5 5 0 0)"
    by (simp_all add: start_state_fields)
  have q0: "paramNum (attr_step (Vertex2f 1 1) (rlBegin RL_QUADS start_state)) = 0"
    by (simp add: rlBegin_def start_state_def rlVertex2f_def Let_def eval_nat_numeral)
  have q2: "paramNum (attr_step (Vertex2f 3 3)
              (run_attrs [Vertex2f 1 1, Vertex2f 2 2] (rlBegin RL_QUADS start_state))) = 2"
    using quad_positions_state_fields(2) by (simp add: quad_positions_state_def)
  have q3: "paramNum (attr_step (Vertex2f 4 4) quad_positions_state) = 3"
    by (simp add: quad_positions_state_fields rlVertex2f_def rlPicaAttrFlush_def
        rlBackupParams_def c_rem_def Let_def)
  from position_twice_flush_by_mode [OF h1 h2 p(1) p(2), of "[Color4ub 1 0 0 1, TexCoord2f 1 1]" RL_TRIANGLES]
  have a: "let s = run_attrs [Color4ub 1 0 0 1, TexCoord2f 1 1] (rlBegin RL_TRIANGLES start_state);
          s1 = attr_step (Vertex2i 3 4) s;
          flushed = rlPicaAttrFlush s1;
          s2 = attr_step (Vertex3f 5 6 7) s1
      in lastParams flushed ! SHD_POSITION = Vector4 3 4 0 0
       \<and> lastParams flushed ! SHD_TEXCOORD = Vector4 1 1 0 0
       \<and> lastParams flushed ! SHD_COLOR = Vector4 1 0 0 1
       \<and> gpu s2 = gpu s1 @ map send_of (take 3 (lastParams flushed))"
    unfolding Let_def by (elim conjE) (simp add: start_state_fields)
  from position_twice_flush_by_mode [OF h1 h2 p(3) p(4), of "[]" RL_QUADS]
  have b: "let s1 = attr_step (Vertex2f 1 1) (rlBegin RL_QUADS start_state);
          flushed = rlPicaAttrFlush s1;
          s2 = attr_step (Vertex2f 2 2) s1
      in paramNum s1 = 0
       \<and> lastParams flushed ! SHD_POSITION = Vector4 1 1 0 0
       \<and> gpu s2 = gpu s1 @ map send_of (take 3 (lastParams flushed))"
    unfolding Let_def using q0
    by (elim conjE) (simp add: start_state_fields)
  from position_twice_flush_by_mode [OF h1 h2 p(5) p(6), of "[Vertex2f 1 1, Vertex2f 2 2]" RL_QUADS]
  have c: "let s1 = quad_positions_state;
          s2 = attr_step (Vertex2f 4 4) s1
      in paramNum s1 = 2
       \<and> gpu s2 = gpu s1 \<and> backupParams s2 = lastParams s1 \<and> paramNum s2 = 3"
    unfolding Let_def using q2
    by (elim conjE) (simp add: start_state_fields quad_positions_state_def)
  from position_twice_flush_by_mode [OF h1 h2 p(6) p(7), of "[Vertex2f 1 1, Vertex2f 2 2, Vertex2f 3 3]" RL_QUADS]
  have d: "let s1 = attr_step (Vertex2f 4 4) quad_positions_state;
          flushed = rlPicaAttrFlush s1;
          s2 = attr_step (Vertex2f 5 5) s1
      in paramNum s1 = 3
       \<and> lastParams flushed ! SHD_POSITION = Vector4 4 4 0 0
       \<and> gpu s2 = gpu s1 @ map send_of (take 3 (lastParams flushed))
                         @ map send_of (take 3 (backupParams s1))
       \<and> paramNum s2 = 0"
    unfolding Let_def quad_positions_state_def [symmetric] using q3
    by (elim conjE) (simp add: start_state_fields)
  from h1 h2 p a b c d show ?thesis
    by (simp only: simp_thms)
qed

text \<open>
  Claim C8 as stated has one set flushed between any two positions in a row, with the
  first position in it. In \<open>quad_positions_state\<close> the position (3, 3) is pending and the
  quad is in phase 2. The next position (4, 4) sends nothing. The position (5, 5) after
  it sends two sets, and the position of the second one is (3, 3), not (4, 4).
\<close>

theorem position_twice_quads_counterexample:
  "paramMode quad_positions_state = RL_QUADS
   \<and> lastParams quad_positions_state ! SHD_POSITION = Vector4 3 3 0 0
   \<and> paramsUsed quad_positions_state ! SHD_POSITION
   \<and> sent (gpu (rlVertex2f 4 4 quad_positions_state)) = sent (gpu quad_positions_state)
   \<and> sent (gpu (rlVertex2f 5 5 (rlVertex2f 4 4 quad_positions_state))) =
       sent (gpu (rlVertex2f 4 4 quad_positions_state))
       @ [Vector4 4 4 0 0, Vector4 0 0 0 0, Vector4 1 1 1 1,
          Vector4 3 3 0 0, Vector4 0 0 0 0, Vector4 1 1 1 1]"
  by (simp add: quad_positions_state_def rlBegin_def start_state_def rlVertex2f_def
      rlPicaAttrFlush_def rlSendAttr_def rlBackupParams_def c_rem_def Let_def eval_nat_numeral)



section \<open>The texture encoding\<close>









lemma apply_writes_length [simp]: "length (apply_writes data ws buf) = length buf"
  unfolding apply_writes_def by (induction ws arbitrary: buf) auto















text \<open>
  Inside the loops the row \<^verbatim>\<open>pixelY + i / 8\<close> stays below the height, so the
  subtraction in \<^verbatim>\<open>pixelNum\<close> is the same on natural numbers as on the \<^verbatim>\<open>int\<close>s
  of the source.
\<close>

lemma pixel_row_below_height:
  fixes height :: nat
  assumes "h < height div 8" "i < 64"
  shows "h * 8 + i div 8 < height"
proof -
  from assms(1) have "Suc h * 8 \<le> height" by simp
  moreover from assms(2) have "i div 8 < 8" by simp
  ultimately show ?thesis by simp
qed




text \<open>
  The sizes of the theorem are sizes the driver accepts, its values of \<open>bpp\<close> are those of
  the uncompressed formats \<^verbatim>\<open>rlLoadTexture\<close> supports, and a successful
  \<^verbatim>\<open>rlLoadTexture\<close> uploads the buffer the theorem describes to the texture of the id it
  returns.
\<close>

lemma tex_size_checkTexSize: "tex_size n \<Longrightarrow> checkTexSize (of_nat n)"
  by (auto simp: tex_size_def checkTexSize_def)

lemma uncompressed_bpp:
  assumes "rlGetPica200TextureFormat format = Some texColor" "texColor \<noteq> GPU_ETC1"
  shows "rlGetPica200TextureBpp texColor \<in> {8, 16, 24, 32}"
  using assms by (cases format) auto

lemma new_scan_found:
  "\<exists>p. rlGetPica200Tex (fst (new_scan newId rest)) (snd (new_scan newId rest)) = Some p
       \<and> p < length (snd (new_scan newId rest))"
  by (induction newId rest rule: new_scan.induct) (auto simp: new_node_def split: prod.splits)

lemma rlNewPica200Tex_found:
  "\<exists>p. rlGetPica200Tex (fst (rlNewPica200Tex s)) (rootTex (snd (rlNewPica200Tex s))) = Some p
       \<and> p < length (rootTex (snd (rlNewPica200Tex s)))"
proof (cases "rootTex s")
  case Nil
  then show ?thesis by (simp add: rlNewPica200Tex_def new_node_def)
next
  case (Cons r rest)
  from new_scan_found [of "1 + 1" rest] Cons show ?thesis
    by (auto simp: rlNewPica200Tex_def split: prod.splits)
qed

lemma rlLoadTexture_uploads_swizzle:
  assumes fmt: "rlGetPica200TextureFormat format = Some texColor"
    and init: "C3D_TexInit width height alloc_ok"
  shows "\<exists>newId s' p t.
      rlLoadTexture data width height format mipmapCount alloc_ok uninit s = Inr (newId, s')
    \<and> newId = fst (rlNewPica200Tex s)
    \<and> rlGetPica200Tex newId (rootTex (snd (rlNewPica200Tex s))) = Some p
    \<and> node_tex (rootTex s' ! p) = Some t
    \<and> tex_data t = Some (swizzle data (nat width) (nat height) (rlGetPica200TextureBpp texColor)
         (RL_MALLOC (nat width * nat height * rlGetPica200TextureBpp texColor div 8) uninit))"
proof -
  obtain newId s1 where n: "rlNewPica200Tex s = (newId, s1)" by (cases "rlNewPica200Tex s")
  from rlNewPica200Tex_found [of s] n obtain p
    where p: "rlGetPica200Tex newId (rootTex s1) = Some p" "p < length (rootTex s1)" by auto
  show ?thesis
    using fmt init n p
    by (simp add: rlLoadTexture_def Let_def C3D_TexUpload_def TRACELOG_def)
qed

section \<open>Lines and the depth counter\<close>

text \<open>
  A consequence for a whole line primitive: between \<^verbatim>\<open>rlBegin(RL_LINES)\<close> and the end of
  \<^verbatim>\<open>rlEnd\<close> no attribute reaches the driver, whatever the setter calls are.
\<close>

lemma sent_append: "sent (xs @ ys) = sent xs @ sent ys"
  by (induction xs rule: sent.induct) simp_all

lemma lines_step_sends_nothing:
  assumes "paramMode s = RL_LINES"
  shows "paramMode (attr_step c s) = RL_LINES \<and> gpu (attr_step c s) = gpu s"
  using assms
  by (cases c) (simp_all add: rlVertex2i_def rlVertex2f_def rlVertex3f_def rlTexCoord2f_def
      rlNormal3f_def rlColor4ub_def rlColor3f_def rlColor4f_def Let_def rlPicaAttrFlush_def)

lemma lines_run_sends_nothing:
  assumes "paramMode s = RL_LINES"
  shows "paramMode (run_attrs cs s) = RL_LINES \<and> gpu (run_attrs cs s) = gpu s"
  using assms
proof (induction cs arbitrary: s)
  case Nil
  then show ?case by simp
next
  case (Cons c cs)
  from lines_step_sends_nothing [OF Cons.prems, of c] Cons.IH [of "attr_step c s"]
  show ?case by simp
qed

lemma lines_bracket_sends_nothing:
  "sent (gpu (rlEnd dec (run_attrs cs (rlBegin RL_LINES s)))) = sent (gpu s)"
proof -
  have b: "paramMode (rlBegin RL_LINES s) = RL_LINES"
    "sent (gpu (rlBegin RL_LINES s)) = sent (gpu s)"
    by (simp_all add: rlBegin_def Let_def sent_append)
  from lines_run_sends_nothing [OF b(1), of cs] b(2) show ?thesis
    by (simp add: rlEnd_def Let_def rlPicaAttrFlush_def sent_append)
qed














end
